theory Spec2Isabelle
  imports Main "HOL-Library.Finite_Map" "HOL-Library.Char_ord" "HOL-Library.List_Lexorder"
    "HOL-Library.Multiset"
begin

section \<open>Shared vocabulary\<close>

text \<open>
  A Go \<^verbatim>\<open>error\<close> is modelled by its message: \<open>None\<close> is \<^verbatim>\<open>nil\<close>, \<open>Some msg\<close> an error
  whose \<^verbatim>\<open>Error()\<close> is \<open>msg\<close>. A call that returns \<^verbatim>\<open>(value, error)\<close> is a sum,
  \<open>Inl msg\<close> for the error.
\<close>

type_synonym err = "string"

text \<open>\<^verbatim>\<open>errors.Wrapf(err, msg)\<close> of pkg/errors: \<^verbatim>\<open>nil\<close> stays \<^verbatim>\<open>nil\<close>, otherwise the
  message is put in front of the cause.\<close>

definition Wrapf :: "err option \<Rightarrow> string \<Rightarrow> err option" where
  "Wrapf e msg = (case e of None \<Rightarrow> None | Some c \<Rightarrow> Some (msg @ '': '' @ c))"

text \<open>The \<^verbatim>\<open>%q\<close> verb: the string between double quotes (escapes are not modelled).\<close>

definition quoted :: "string \<Rightarrow> string" where
  "quoted s = CHR 0x22 # s @ [CHR 0x22]"

section \<open>Resource Prioritizer (pkg/restore/restore.go, prioritizeResources)\<close>

record GroupResource =
  Group :: string
  Resource :: string

text \<open>\<^verbatim>\<open>schema.GroupResource.String()\<close>: the resource alone for the core group, else
  \<^verbatim>\<open>resource.group\<close>.\<close>

definition GroupResource_String :: "GroupResource \<Rightarrow> string" where
  "GroupResource_String gr =
     (if Group gr = [] then Resource gr else Resource gr @ ''.'' @ Group gr)"

text \<open>\<^verbatim>\<open>schema.ParseGroupResource\<close>: split at the first dot.\<close>

definition ParseGroupResource :: "string \<Rightarrow> GroupResource" where
  "ParseGroupResource s =
     (if CHR ''.'' \<in> set s
      then \<lparr>Group = tl (dropWhile (\<lambda>c. c \<noteq> CHR ''.'') s),
            Resource = takeWhile (\<lambda>c. c \<noteq> CHR ''.'') s\<rparr>
      else \<lparr>Group = [], Resource = s\<rparr>)"

text \<open>\<^verbatim>\<open>schema.ParseGroupVersion\<close>: the empty string and \<^verbatim>\<open>/\<close> are the empty
  group-version, a string with no slash is a version of the core group, one slash splits
  group from version, more slashes are an error. The result is the pair (group, version).\<close>

definition ParseGroupVersion :: "string \<Rightarrow> err + (string \<times> string)" where
  "ParseGroupVersion gv =
     (if gv = [] \<or> gv = ''/'' then Inr ([], [])
      else if count_list gv (CHR ''/'') = 0 then Inr ([], gv)
      else if count_list gv (CHR ''/'') = 1
        then Inr (takeWhile (\<lambda>c. c \<noteq> CHR ''/'') gv, tl (dropWhile (\<lambda>c. c \<noteq> CHR ''/'') gv))
      else Inl (''unexpected GroupVersion string: '' @ gv))"

text \<open>One entry of \<^verbatim>\<open>helper.Resources()\<close>: a group-version and the names of its resources.\<close>

record APIResourceList =
  GroupVersion :: string
  APIResources :: "string list"

text \<open>The discovery helper is an interface the engine consumes. \<open>ResourceFor\<close> takes the
  parsed group-resource (the version of the query is always empty) and yields the
  group-resource of the resolved \<^verbatim>\<open>GroupVersionResource\<close>, or an error.\<close>

record Helper =
  ResourceFor :: "GroupResource \<Rightarrow> err + GroupResource"
  Resources :: "APIResourceList list"

text \<open>An \<^verbatim>\<open>IncludesExcludes\<close> filter is used through \<^verbatim>\<open>ShouldInclude\<close> only; the
  collections package is not among the sources, so the filter is its \<^verbatim>\<open>ShouldInclude\<close>.\<close>

type_synonym IncludesExcludes = "string \<Rightarrow> bool"

text \<open>The first loop of \<^verbatim>\<open>prioritizeResources\<close>, over \<^verbatim>\<open>priorities\<close>, with the
  accumulators \<^verbatim>\<open>ret\<close> and \<^verbatim>\<open>set\<close>.\<close>

fun resolvePriorities ::
  "Helper \<Rightarrow> IncludesExcludes \<Rightarrow> string list \<Rightarrow> GroupResource list \<Rightarrow> string set
     \<Rightarrow> err + (GroupResource list \<times> string set)" where
  "resolvePriorities h inc [] ret seen = Inr (ret, seen)"
| "resolvePriorities h inc (r # rs) ret seen =
     (case ResourceFor h (ParseGroupResource r) of
        Inl e \<Rightarrow> Inl e
      | Inr gr \<Rightarrow>
          if \<not> inc (GroupResource_String gr) then resolvePriorities h inc rs ret seen
          else resolvePriorities h inc rs (ret @ [gr]) (insert (GroupResource_String gr) seen))"

text \<open>The inner loop over \<^verbatim>\<open>resourceGroup.APIResources\<close>.\<close>

fun collectGroup ::
  "IncludesExcludes \<Rightarrow> string set \<Rightarrow> string \<Rightarrow> string list \<Rightarrow> GroupResource list
     \<Rightarrow> GroupResource list" where
  "collectGroup inc seen g [] byName = byName"
| "collectGroup inc seen g (n # ns) byName =
     (let gr = \<lparr>Group = g, Resource = n\<rparr> in
      if \<not> inc (GroupResource_String gr) then collectGroup inc seen g ns byName
      else if GroupResource_String gr \<notin> seen then collectGroup inc seen g ns (byName @ [gr])
      else collectGroup inc seen g ns byName)"

text \<open>The outer loop over \<^verbatim>\<open>helper.Resources()\<close>.\<close>

fun collectByName ::
  "IncludesExcludes \<Rightarrow> string set \<Rightarrow> APIResourceList list \<Rightarrow> GroupResource list
     \<Rightarrow> err + GroupResource list" where
  "collectByName inc seen [] byName = Inr byName"
| "collectByName inc seen (rg # rgs) byName =
     (case ParseGroupVersion (GroupVersion rg) of
        Inl e \<Rightarrow> Inl e
      | Inr gv \<Rightarrow> collectByName inc seen rgs (collectGroup inc seen (fst gv) (APIResources rg) byName))"

text \<open>\<^verbatim>\<open>sort.Slice\<close> with \<^verbatim>\<open>byName[i].String() < byName[j].String()\<close>: Go compares strings
  bytewise, which is the lexicographic order on \<open>char list\<close>. \<^verbatim>\<open>sort.Slice\<close> is not
  stable; entries with equal names are equal group-resources unless a resource name has a
  dot, and the model orders those as insertion sort does.\<close>

definition prioritizeResources ::
  "Helper \<Rightarrow> string list \<Rightarrow> IncludesExcludes \<Rightarrow> err + GroupResource list" where
  "prioritizeResources helper priorities includedResources =
     (case resolvePriorities helper includedResources priorities [] {} of
        Inl e \<Rightarrow> Inl e
      | Inr (ret, seen) \<Rightarrow>
          (case collectByName includedResources seen (Resources helper) [] of
             Inl e \<Rightarrow> Inl e
           | Inr byName \<Rightarrow> Inr (ret @ sort_key GroupResource_String byName)))"


text \<open>For stating the order: the group-resource a configured priority entry resolves to, and
  every group-resource that discovery lists, in discovery order (with repetitions).\<close>

definition resolved :: "Helper \<Rightarrow> string \<Rightarrow> GroupResource" where
  "resolved h r = projr (ResourceFor h (ParseGroupResource r))"

definition discoveredResources :: "Helper \<Rightarrow> GroupResource list" where
  "discoveredResources h =
     concat (map (\<lambda>rg. map (\<lambda>n. \<lparr>Group = fst (projr (ParseGroupVersion (GroupVersion rg))),
                                     Resource = n\<rparr>)
                          (APIResources rg)) (Resources h))"

text \<open>Example inputs: a discovery that lists two versions of the group \<^verbatim>\<open>apps\<close>, and a
  small cluster whose filter excludes events and whose discovery cannot resolve
  \<^verbatim>\<open>bogus\<close>.\<close>

definition dupHelper :: Helper where
  "dupHelper = \<lparr>ResourceFor = (\<lambda>gr. Inr gr),
     Resources = [\<lparr>GroupVersion = ''apps/v1'', APIResources = [''deployments'']\<rparr>,
                  \<lparr>GroupVersion = ''apps/v1beta1'', APIResources = [''deployments'']\<rparr>]\<rparr>"

definition includeAll :: IncludesExcludes where
  "includeAll s = True"

definition exHelper :: Helper where
  "exHelper = \<lparr>ResourceFor = (\<lambda>gr. if Resource gr = ''bogus'' then Inl ''no matches'' else Inr gr),
     Resources = [\<lparr>GroupVersion = ''v1'', APIResources = [''pods'', ''namespaces'', ''events'']\<rparr>,
                  \<lparr>GroupVersion = ''apps/v1'', APIResources = [''statefulsets'']\<rparr>,
                  \<lparr>GroupVersion = ''batch/v1'', APIResources = [''jobs'']\<rparr>]\<rparr>"

definition exFilter :: IncludesExcludes where
  "exFilter s = (s \<noteq> ''events'')"

text \<open>The string that the claim about the order names: group, slash, resource.\<close>

definition groupSlashResource :: "GroupResource \<Rightarrow> string" where
  "groupSlashResource gr = Group gr @ ''/'' @ Resource gr"

section \<open>Archive reader (pkg/archive, gzipTarReader)\<close>

text \<open>\<^verbatim>\<open>ResourceScope\<close> is a string type with two named values; the third constant of the
  block is the message of the not-extracted error.\<close>

type_synonym ResourceScope = string

definition ResourceScopeCluster :: ResourceScope where
  "ResourceScopeCluster = ''cluster''"

definition ResourceScopeNamespace :: ResourceScope where
  "ResourceScopeNamespace = ''namespace''"

definition ErrNotExtracted :: err where
  "ErrNotExtracted = ''archive has not been extracted''"

text \<open>Modelled from the spec: the directory names of the layout contract (section 6), which
  the code takes from constants of the API package that is not among the sources: a root
  resources directory, a cluster subdirectory, a namespaces subdirectory.\<close>

definition ResourcesDir :: string where
  "ResourcesDir = ''resources''"

definition ClusterScopedDir :: string where
  "ClusterScopedDir = ''cluster''"

definition NamespaceScopedDir :: string where
  "NamespaceScopedDir = ''namespaces''"

text \<open>\<^verbatim>\<open>filepath.Join\<close>: the non-empty elements, separated by a slash (the final
  \<^verbatim>\<open>Clean\<close> is not modelled); \<^verbatim>\<open>filepath.Dir\<close>: all but the last element.\<close>

fun Join :: "string list \<Rightarrow> string" where
  "Join [] = []"
| "Join (p # ps) =
     (if p = [] then Join ps
      else if Join ps = [] then p else p @ ''/'' @ Join ps)"

definition Dir :: "string \<Rightarrow> string" where
  "Dir p =
     (let d = rev (dropWhile (\<lambda>c. c \<noteq> CHR ''/'') (rev p)) in
      if d = [] then ''.'' else if d = ''/'' then d else butlast d)"

text \<open>The file system is an interface of the reader (\<^verbatim>\<open>filesystem.Interface\<close>); \<open>'f\<close> is
  the state of the file system behind it. \<open>CopyTo\<close> stands for \<^verbatim>\<open>io.Copy\<close> into a
  created file. A directory entry is its name and whether it is a directory.\<close>

record 'f FileSystem =
  TempDir :: "'f \<Rightarrow> (err + string) \<times> 'f"
  MkdirAll :: "'f \<Rightarrow> string \<Rightarrow> nat \<Rightarrow> err option \<times> 'f"
  Create :: "'f \<Rightarrow> string \<Rightarrow> err option \<times> 'f"
  CopyTo :: "'f \<Rightarrow> string \<Rightarrow> string \<Rightarrow> err option \<times> 'f"
  DirExists :: "'f \<Rightarrow> string \<Rightarrow> err + bool"
  ReadDir :: "'f \<Rightarrow> string \<Rightarrow> err + (string \<times> bool) list"
  ReadFile :: "'f \<Rightarrow> string \<Rightarrow> err + string"
  RemoveAll :: "'f \<Rightarrow> string \<Rightarrow> err option \<times> 'f"

text \<open>The calls a reader makes on its file system, recorded in order.\<close>

datatype fsCall =
    FsTempDir
  | FsMkdirAll string
  | FsCreate string
  | FsCopy string
  | FsDirExists string
  | FsReadDir string
  | FsReadFile string
  | FsRemoveAll string

datatype Typeflag = TypeDir | TypeReg | TypeOther

record tarEntry =
  Name :: string
  Flag :: Typeflag
  Mode :: nat
  Content :: string

text \<open>The \<^verbatim>\<open>io.Reader\<close> of the archive is what gzip and tar decoding make of it: \<open>Inl\<close>
  when \<^verbatim>\<open>gzip.NewReader\<close> fails, else the entries that \<^verbatim>\<open>rdr.Next()\<close> yields and how
  the stream ends (\<open>None\<close> for \<^verbatim>\<open>io.EOF\<close>, \<open>Some\<close> for another error).\<close>

record 'f gzipTarReader =
  archive :: "err + (tarEntry list \<times> err option)"
  tempDir :: string
  fs :: "'f FileSystem"
  fsState :: 'f
  fsCalls :: "fsCall list"

definition NewGzipTarReader ::
  "(err + (tarEntry list \<times> err option)) \<Rightarrow> 'f FileSystem \<Rightarrow> 'f \<Rightarrow> 'f gzipTarReader" where
  "NewGzipTarReader a fsys f =
     \<lparr>archive = a, tempDir = [], fs = fsys, fsState = f, fsCalls = []\<rparr>"

definition fsQuery :: "'f gzipTarReader \<Rightarrow> fsCall \<Rightarrow> 'f gzipTarReader" where
  "fsQuery r c = r\<lparr>fsCalls := fsCalls r @ [c]\<rparr>"

definition GetResourceScope ::
  "'f gzipTarReader \<Rightarrow> string \<Rightarrow> (ResourceScope \<times> bool \<times> err option) \<times> 'f gzipTarReader" where
  "GetResourceScope r groupResource =
     (if tempDir r = [] then (([], False, Some ErrNotExtracted), r)
      else
        let dir = Join [tempDir r, ResourcesDir, groupResource];
            r1 = fsQuery r (FsDirExists dir)
        in case DirExists (fs r) (fsState r) dir of
             Inl e \<Rightarrow> (([], False, Some (''error checking existence of directory '' @ dir @ '': '' @ e)), r1)
           | Inr False \<Rightarrow> (([], False, None), r1)
           | Inr True \<Rightarrow>
               let clusterScopedDir = Join [dir, ClusterScopedDir];
                   r2 = fsQuery r1 (FsDirExists clusterScopedDir)
               in case DirExists (fs r) (fsState r) clusterScopedDir of
                    Inl e \<Rightarrow> (([], False, Some (''error checking existence of directory '' @
                                 clusterScopedDir @ '': '' @ e)), r2)
                  | Inr True \<Rightarrow> ((ResourceScopeCluster, True, None), r2)
                  | Inr False \<Rightarrow> ((ResourceScopeNamespace, True, None), r2))"

definition ListNamespaces ::
  "'f gzipTarReader \<Rightarrow> string \<Rightarrow> (err + string list) \<times> 'f gzipTarReader" where
  "ListNamespaces r groupResource =
     (if tempDir r = [] then (Inl ErrNotExtracted, r)
      else
        case GetResourceScope r groupResource of
          ((scope, found, Some e), r1) \<Rightarrow> (Inl e, r1)
        | ((scope, found, None), r1) \<Rightarrow>
            if \<not> found then (Inl (''resource '' @ groupResource @ '' not found in archive''), r1)
            else if scope \<noteq> ResourceScopeNamespace
              then (Inl (''resource '' @ groupResource @ '' is not namespace-scoped''), r1)
            else
              let dir = Join [tempDir r, ResourcesDir, groupResource, NamespaceScopedDir];
                  r2 = fsQuery r1 (FsReadDir dir)
              in case ReadDir (fs r) (fsState r) dir of
                   Inl e \<Rightarrow> (Inl (''error reading contents of directory '' @ dir @ '': '' @ e), r2)
                 | Inr contents \<Rightarrow> (Inr (map fst (filter snd contents)), r2))"

definition ListContents ::
  "'f gzipTarReader \<Rightarrow> string \<Rightarrow> string \<Rightarrow> (err + string list) \<times> 'f gzipTarReader" where
  "ListContents r groupResource namespace =
     (if tempDir r = [] then (Inl ErrNotExtracted, r)
      else
        let dir = (if namespace = []
                   then Join [tempDir r, ResourcesDir, groupResource, ClusterScopedDir]
                   else Join [tempDir r, ResourcesDir, groupResource, NamespaceScopedDir, namespace]);
            r1 = fsQuery r (FsReadDir dir)
        in case ReadDir (fs r) (fsState r) dir of
             Inl e \<Rightarrow> (Inl (''error reading directory '' @ dir @ '': '' @ e), r1)
           | Inr files \<Rightarrow> (Inr (map fst files), r1))"

definition Get ::
  "'f gzipTarReader \<Rightarrow> string \<Rightarrow> string \<Rightarrow> string \<Rightarrow> (err + string) \<times> 'f gzipTarReader" where
  "Get r groupResource namespace name =
     (if tempDir r = [] then (Inl ErrNotExtracted, r)
      else
        let filename = (if namespace = []
                   then Join [tempDir r, ResourcesDir, groupResource, ClusterScopedDir, name]
                   else Join [tempDir r, ResourcesDir, groupResource, NamespaceScopedDir, namespace, name]);
            r1 = fsQuery r (FsReadFile filename)
        in case ReadFile (fs r) (fsState r) filename of
             Inl e \<Rightarrow> (Inl (''error reading file '' @ filename @ '': '' @ e), r1)
           | Inr bytes \<Rightarrow> (Inr bytes, r1))"

text \<open>The loop of \<^verbatim>\<open>Extract\<close> over the tar entries; the file-system state and the call
  record are threaded through; the first failure ends it.\<close>

fun extractEntries ::
  "'f FileSystem \<Rightarrow> string \<Rightarrow> tarEntry list \<Rightarrow> 'f \<Rightarrow> fsCall list \<Rightarrow> err option \<times> 'f \<times> fsCall list" where
  "extractEntries fsys dir [] f calls = (None, f, calls)"
| "extractEntries fsys dir (header # rest) f calls =
     (let target = Join [dir, Name header] in
      case Flag header of
        TypeDir \<Rightarrow>
          (case MkdirAll fsys f target (Mode header) of
             (Some e, f1) \<Rightarrow> (Some (''error running MkdirAll for '' @ target @ '': '' @ e), f1,
                               calls @ [FsMkdirAll target])
           | (None, f1) \<Rightarrow> extractEntries fsys dir rest f1 (calls @ [FsMkdirAll target]))
      | TypeReg \<Rightarrow>
          (case MkdirAll fsys f (Dir target) (Mode header) of
             (Some e, f1) \<Rightarrow> (Some (''error running MkdirAll for '' @ target @ '': '' @ e), f1,
                               calls @ [FsMkdirAll (Dir target)])
           | (None, f1) \<Rightarrow>
               (case Create fsys f1 target of
                  (Some e, f2) \<Rightarrow> (Some (''error creating file '' @ target @ '': '' @ e), f2,
                                    calls @ [FsMkdirAll (Dir target), FsCreate target])
                | (None, f2) \<Rightarrow>
                    (case CopyTo fsys f2 target (Content header) of
                       (Some e, f3) \<Rightarrow> (Some (''error copying data to file '' @ target @ '': '' @ e), f3,
                            calls @ [FsMkdirAll (Dir target), FsCreate target, FsCopy target])
                     | (None, f3) \<Rightarrow>
                         extractEntries fsys dir rest f3
                           (calls @ [FsMkdirAll (Dir target), FsCreate target, FsCopy target]))))
      | TypeOther \<Rightarrow> extractEntries fsys dir rest f calls)"

definition Extract :: "'f gzipTarReader \<Rightarrow> err option \<times> 'f gzipTarReader" where
  "Extract r =
     (case archive r of
        Inl e \<Rightarrow> (Some (''error creating gzip reader: '' @ e), r)
      | Inr (entries, ending) \<Rightarrow>
          (case TempDir (fs r) (fsState r) of
             (Inl e, f1) \<Rightarrow> (Some (''error creating temp dir: '' @ e),
                              r\<lparr>fsState := f1, fsCalls := fsCalls r @ [FsTempDir]\<rparr>)
           | (Inr dir, f1) \<Rightarrow>
               (case extractEntries (fs r) dir entries f1 (fsCalls r @ [FsTempDir]) of
                  (Some e, f2, calls) \<Rightarrow> (Some e, r\<lparr>fsState := f2, fsCalls := calls\<rparr>)
                | (None, f2, calls) \<Rightarrow>
                    (case ending of
                       Some e \<Rightarrow> (Some (''error getting next tar header: '' @ e),
                                    r\<lparr>fsState := f2, fsCalls := calls\<rparr>)
                     | None \<Rightarrow> (None, r\<lparr>fsState := f2, fsCalls := calls, tempDir := dir\<rparr>)))))"

definition Close :: "'f gzipTarReader \<Rightarrow> err option \<times> 'f gzipTarReader" where
  "Close r =
     (if tempDir r = [] then (None, r)
      else
        case RemoveAll (fs r) (fsState r) (tempDir r) of
          (Some e, f1) \<Rightarrow> (Some (''error removing temp dir '' @ tempDir r @ '': '' @ e),
                           r\<lparr>fsState := f1, fsCalls := fsCalls r @ [FsRemoveAll (tempDir r)]\<rparr>)
        | (None, f1) \<Rightarrow> (None, r\<lparr>fsState := f1, fsCalls := fsCalls r @ [FsRemoveAll (tempDir r)]\<rparr>))"

text \<open>Example: a file system over a list of created paths, and an archive whose second
  header cannot be read.\<close>

definition listFS :: "string list FileSystem" where
  "listFS = \<lparr>TempDir = (\<lambda>f. (Inr ''/tmp/x'', ''/tmp/x'' # f)),
     MkdirAll = (\<lambda>f p m. (None, p # f)),
     Create = (\<lambda>f p. (None, p # f)),
     CopyTo = (\<lambda>f p c. (None, f)),
     DirExists = (\<lambda>f p. Inr (p \<in> set f)),
     ReadDir = (\<lambda>f p. Inr []),
     ReadFile = (\<lambda>f p. Inl ''no such file''),
     RemoveAll = (\<lambda>f p. (None, filter (\<lambda>q. q \<noteq> p) f))\<rparr>"

definition brokenArchive :: "err + (tarEntry list \<times> err option)" where
  "brokenArchive =
     Inr ([\<lparr>Name = ''resources/pods/namespaces/ns-1/p1.json'', Flag = TypeReg, Mode = 493,
            Content = ''{}''\<rparr>], Some ''unexpected EOF'')"

section \<open>Untyped resource documents\<close>

text \<open>An \<^verbatim>\<open>unstructured.Unstructured\<close> is the JSON object it wraps. A Go map is a finite
  map, so that equality of documents is \<^verbatim>\<open>DeepEqual\<close> of their maps.\<close>

datatype json =
    JNull
  | JBool bool
  | JNum int
  | JStr string
  | JArr "json list"
  | JObj "(string, json) fmap"

type_synonym obj = "(string, json) fmap"

text \<open>\<^verbatim>\<open>unstructured.NestedFieldNoCopy\<close>: follow the fields through nested maps. A missing
  key is "not found"; a value on the way that is not a map is an error.\<close>

datatype nested = NotFound | Found json | AccessError err

fun NestedFieldNoCopy :: "json \<Rightarrow> string list \<Rightarrow> nested" where
  "NestedFieldNoCopy v [] = Found v"
| "NestedFieldNoCopy (JObj m) (f # rest) =
     (case fmlookup m f of None \<Rightarrow> NotFound | Some v \<Rightarrow> NestedFieldNoCopy v rest)"
| "NestedFieldNoCopy v (f # rest) = AccessError (''accessor error: expected map at '' @ f)"

text \<open>\<^verbatim>\<open>unstructured.NestedString\<close>, with its three results (value, found, error).\<close>

definition NestedString :: "obj \<Rightarrow> string list \<Rightarrow> string \<times> bool \<times> err option" where
  "NestedString ob path =
     (case NestedFieldNoCopy (JObj ob) path of
        NotFound \<Rightarrow> ([], False, None)
      | AccessError e \<Rightarrow> ([], False, Some e)
      | Found (JStr s) \<Rightarrow> (s, True, None)
      | Found _ \<Rightarrow> ([], False, Some ''accessor error: expected string''))"

text \<open>\<^verbatim>\<open>getNestedString\<close>, behind \<^verbatim>\<open>GetName\<close> and \<^verbatim>\<open>GetAPIVersion\<close>: the empty string
  unless a string is found.\<close>

definition getNestedString :: "obj \<Rightarrow> string list \<Rightarrow> string" where
  "getNestedString ob path =
     (case NestedString ob path of (s, found, e) \<Rightarrow> if \<not> found \<or> e \<noteq> None then [] else s)"

definition GetName :: "obj \<Rightarrow> string" where
  "GetName ob = getNestedString ob [''metadata'', ''name'']"

definition GetAPIVersion :: "obj \<Rightarrow> string" where
  "GetAPIVersion ob = getNestedString ob [''apiVersion'']"

fun isJStr :: "json \<Rightarrow> bool" where
  "isJStr (JStr s) = True"
| "isJStr v = False"

fun strOf :: "json \<Rightarrow> string" where
  "strOf (JStr s) = s"
| "strOf v = []"

text \<open>\<^verbatim>\<open>NestedStringMap\<close> as \<^verbatim>\<open>GetLabels\<close> and \<^verbatim>\<open>GetAnnotations\<close> use it: the map of
  strings at the path, and the empty (nil) map when the path is missing, is no map, or
  holds a value that is no string.\<close>

definition nestedStringMap :: "obj \<Rightarrow> string list \<Rightarrow> (string, string) fmap" where
  "nestedStringMap ob path =
     (case NestedFieldNoCopy (JObj ob) path of
        Found (JObj m) \<Rightarrow> if fmpred (\<lambda>k v. isJStr v) m then fmmap strOf m else fmempty
      | _ \<Rightarrow> fmempty)"

definition GetLabels :: "obj \<Rightarrow> (string, string) fmap" where
  "GetLabels ob = nestedStringMap ob [''metadata'', ''labels'']"

definition GetAnnotations :: "obj \<Rightarrow> (string, string) fmap" where
  "GetAnnotations ob = nestedStringMap ob [''metadata'', ''annotations'']"

text \<open>A lookup in a Go \<^verbatim>\<open>map[string]string\<close>: the empty string for a missing key.\<close>

definition lookupStr :: "(string, string) fmap \<Rightarrow> string \<Rightarrow> string" where
  "lookupStr m k = (case fmlookup m k of None \<Rightarrow> [] | Some v \<Rightarrow> v)"

text \<open>\<^verbatim>\<open>setNestedFieldNoCopy\<close> for the two-element paths under \<^verbatim>\<open>metadata\<close> that the
  setters use: a missing \<^verbatim>\<open>metadata\<close> is created, one that is no map leaves the document
  as it is (the setters drop the error).\<close>

definition setMetadataField :: "obj \<Rightarrow> string \<Rightarrow> json \<Rightarrow> obj" where
  "setMetadataField ob k v =
     (case fmlookup ob ''metadata'' of
        None \<Rightarrow> fmupd ''metadata'' (JObj (fmupd k v fmempty)) ob
      | Some (JObj m) \<Rightarrow> fmupd ''metadata'' (JObj (fmupd k v m)) ob
      | Some _ \<Rightarrow> ob)"

definition SetNamespace :: "obj \<Rightarrow> string \<Rightarrow> obj" where
  "SetNamespace ob ns = setMetadataField ob ''namespace'' (JStr ns)"

definition SetLabels :: "obj \<Rightarrow> (string, string) fmap \<Rightarrow> obj" where
  "SetLabels ob labels = setMetadataField ob ''labels'' (JObj (fmmap JStr labels))"

definition SetAnnotations :: "obj \<Rightarrow> (string, string) fmap \<Rightarrow> obj" where
  "SetAnnotations ob annotations = setMetadataField ob ''annotations'' (JObj (fmmap JStr annotations))"

text \<open>Modelled from the spec: the typed-path accessors of the collections package, which is
  not among the sources (section 9: get-string-at-path and get-map-at-path, returning
  explicit not-found and wrong-type results). The path is split at its dots.\<close>

primrec splitPath :: "string \<Rightarrow> string \<Rightarrow> string list" where
  "splitPath acc [] = [acc]"
| "splitPath acc (c # cs) =
     (if c = CHR ''.'' then acc # splitPath [] cs else splitPath (acc @ [c]) cs)"

definition GetValue :: "obj \<Rightarrow> string \<Rightarrow> err + json" where
  "GetValue ob path =
     (case NestedFieldNoCopy (JObj ob) (splitPath [] path) of
        Found v \<Rightarrow> Inr v
      | NotFound \<Rightarrow> Inl (''key '' @ path @ '' not found'')
      | AccessError e \<Rightarrow> Inl e)"

definition GetString :: "obj \<Rightarrow> string \<Rightarrow> err + string" where
  "GetString ob path =
     (case GetValue ob path of
        Inl e \<Rightarrow> Inl e
      | Inr (JStr s) \<Rightarrow> Inr s
      | Inr _ \<Rightarrow> Inl (''value at '' @ path @ '' is not a string''))"

definition GetMap :: "obj \<Rightarrow> string \<Rightarrow> err + obj" where
  "GetMap ob path =
     (case GetValue ob path of
        Inl e \<Rightarrow> Inl e
      | Inr (JObj m) \<Rightarrow> Inr m
      | Inr _ \<Rightarrow> Inl (''value at '' @ path @ '' is not a map''))"

text \<open>Modelled from the spec: the resource types that the engine singles out (section 4.3
  and 9: Pods, Jobs, PersistentVolumes, PersistentVolumeClaims, ServiceAccounts and the
  namespace type), constants of the kuberesource package, which is not among the sources.\<close>

definition Pods :: GroupResource where
  "Pods = \<lparr>Group = [], Resource = ''pods''\<rparr>"

definition Jobs :: GroupResource where
  "Jobs = \<lparr>Group = ''batch'', Resource = ''jobs''\<rparr>"

definition PersistentVolumes :: GroupResource where
  "PersistentVolumes = \<lparr>Group = [], Resource = ''persistentvolumes''\<rparr>"

definition PersistentVolumeClaims :: GroupResource where
  "PersistentVolumeClaims = \<lparr>Group = [], Resource = ''persistentvolumeclaims''\<rparr>"

definition ServiceAccounts :: GroupResource where
  "ServiceAccounts = \<lparr>Group = [], Resource = ''serviceaccounts''\<rparr>"

definition NamespacesResource :: GroupResource where
  "NamespacesResource = \<lparr>Group = [], Resource = ''namespaces''\<rparr>"

text \<open>Modelled from the spec: the identification labels that a restore stamps on an item
  (restore name and source backup name, section 4.3 step 11), constants of the API package,
  which is not among the sources; the code sets a third, older label with the restore name.\<close>

definition BackupNameLabel :: string where
  "BackupNameLabel = ''ark.heptio.com/backup-name''"

definition RestoreNameLabel :: string where
  "RestoreNameLabel = ''ark.heptio.com/restore-name''"

definition RestoreLabelKey :: string where
  "RestoreLabelKey = ''ark-restore''"

definition MirrorPodAnnotationKey :: string where
  "MirrorPodAnnotationKey = ''kubernetes.io/config.mirror''"

subsection \<open>isCompleted, isPVReady, resetMetadataAndStatus, addRestoreLabels\<close>

definition isCompleted :: "obj \<Rightarrow> GroupResource \<Rightarrow> bool \<times> err option" where
  "isCompleted ob groupResource =
     (if groupResource = Pods then
        (case NestedString ob [''status'', ''phase''] of
           (phase, found, Some e) \<Rightarrow> (False, Some e)
         | (phase, found, None) \<Rightarrow>
             if phase = ''Failed'' \<or> phase = ''Succeeded'' then (True, None) else (False, None))
      else if groupResource = Jobs then
        (case NestedString ob [''status'', ''completionTime''] of
           (ct, found, Some e) \<Rightarrow> (False, Some e)
         | (ct, found, None) \<Rightarrow>
             if found \<and> ct \<noteq> [] then (True, None) else (False, None))
      else (False, None))"

definition isPVReady :: "obj \<Rightarrow> bool" where
  "isPVReady ob =
     (case GetString ob ''status.phase'' of
        Inl e \<Rightarrow> False
      | Inr phase \<Rightarrow> phase = ''Available'')"

definition resetMetadataAndStatus :: "obj \<Rightarrow> err + obj" where
  "resetMetadataAndStatus ob =
     (case GetMap ob ''metadata'' of
        Inl e \<Rightarrow> Inl e
      | Inr metadata \<Rightarrow>
          Inr (fmdrop ''status''
                (fmupd ''metadata''
                   (JObj (fmfilter (\<lambda>k. k \<in> {''name'', ''namespace'', ''labels'', ''annotations''}) metadata))
                   ob)))"

definition addRestoreLabels :: "obj \<Rightarrow> string \<Rightarrow> string \<Rightarrow> obj" where
  "addRestoreLabels ob restoreName backupName =
     SetLabels ob
       (fmupd RestoreLabelKey restoreName
         (fmupd RestoreNameLabel restoreName
           (fmupd BackupNameLabel backupName (GetLabels ob))))"

section \<open>Label selectors\<close>

text \<open>The selectors of the apimachinery labels package: \<^verbatim>\<open>labels.Nothing()\<close> matches no
  label set; every other selector is a list of requirements that must all hold, and
  \<^verbatim>\<open>labels.Everything()\<close> is the empty list.\<close>

datatype Operator = OpIn | OpNotIn | OpExists | OpDoesNotExist

record Requirement =
  reqKey :: string
  reqOperator :: Operator
  reqValues :: "string list"

datatype Selector = Nothing | Requirements "Requirement list"

definition Everything :: Selector where
  "Everything = Requirements []"

definition reqMatches :: "Requirement \<Rightarrow> (string, string) fmap \<Rightarrow> bool" where
  "reqMatches r ls =
     (case reqOperator r of
        OpIn \<Rightarrow> (case fmlookup ls (reqKey r) of None \<Rightarrow> False | Some v \<Rightarrow> v \<in> set (reqValues r))
      | OpNotIn \<Rightarrow> (case fmlookup ls (reqKey r) of None \<Rightarrow> True | Some v \<Rightarrow> v \<notin> set (reqValues r))
      | OpExists \<Rightarrow> fmlookup ls (reqKey r) \<noteq> None
      | OpDoesNotExist \<Rightarrow> fmlookup ls (reqKey r) = None)"

fun Matches :: "Selector \<Rightarrow> (string, string) fmap \<Rightarrow> bool" where
  "Matches Nothing ls = False"
| "Matches (Requirements rs) ls = list_all (\<lambda>r. reqMatches r ls) rs"

text \<open>A \<^verbatim>\<open>metav1.LabelSelector\<close>: \<^verbatim>\<open>matchLabels\<close> and \<^verbatim>\<open>matchExpressions\<close>, the latter
  with the operator as the string of the request.\<close>

record LabelSelectorRequirement =
  exprKey :: string
  exprOperator :: string
  exprValues :: "string list"

record LabelSelector =
  MatchLabels :: "(string \<times> string) list"
  MatchExpressions :: "LabelSelectorRequirement list"

text \<open>\<^verbatim>\<open>labels.NewRequirement\<close> checks the number of values for the operator (the syntax
  checks of keys and values are left out).\<close>

definition NewRequirement :: "string \<Rightarrow> Operator \<Rightarrow> string list \<Rightarrow> err + Requirement" where
  "NewRequirement k op vals =
     (if (op = OpIn \<or> op = OpNotIn) \<and> vals = []
        then Inl ''for in, notin operators, values set can not be empty''
      else if (op = OpExists \<or> op = OpDoesNotExist) \<and> vals \<noteq> []
        then Inl ''values set must be empty for exists and does not exist''
      else Inr \<lparr>reqKey = k, reqOperator = op, reqValues = vals\<rparr>)"

definition operatorOf :: "string \<Rightarrow> err + Operator" where
  "operatorOf s =
     (if s = ''In'' then Inr OpIn
      else if s = ''NotIn'' then Inr OpNotIn
      else if s = ''Exists'' then Inr OpExists
      else if s = ''DoesNotExist'' then Inr OpDoesNotExist
      else Inl (quoted s @ '' is not a valid pod selector operator''))"

fun addMatchLabels :: "(string \<times> string) list \<Rightarrow> Requirement list \<Rightarrow> err + Requirement list" where
  "addMatchLabels [] rs = Inr rs"
| "addMatchLabels ((k, v) # kvs) rs =
     (case NewRequirement k OpIn [v] of
        Inl e \<Rightarrow> Inl e
      | Inr r \<Rightarrow> addMatchLabels kvs (rs @ [r]))"

fun addMatchExpressions :: "LabelSelectorRequirement list \<Rightarrow> Requirement list \<Rightarrow> err + Requirement list" where
  "addMatchExpressions [] rs = Inr rs"
| "addMatchExpressions (x # xs) rs =
     (case operatorOf (exprOperator x) of
        Inl e \<Rightarrow> Inl e
      | Inr op \<Rightarrow>
          (case NewRequirement (exprKey x) op (exprValues x) of
             Inl e \<Rightarrow> Inl e
           | Inr r \<Rightarrow> addMatchExpressions xs (rs @ [r])))"

text \<open>\<^verbatim>\<open>metav1.LabelSelectorAsSelector\<close>: a nil selector is \<^verbatim>\<open>Nothing\<close>, an empty one is
  \<^verbatim>\<open>Everything\<close> (as the comment in \<^verbatim>\<open>Restore\<close> recalls).\<close>

definition LabelSelectorAsSelector :: "LabelSelector option \<Rightarrow> err + Selector" where
  "LabelSelectorAsSelector ps =
     (case ps of
        None \<Rightarrow> Inr Nothing
      | Some l \<Rightarrow>
          if length (MatchLabels l) + length (MatchExpressions l) = 0 then Inr Everything
          else
            (case addMatchLabels (MatchLabels l) [] of
               Inl e \<Rightarrow> Inl e
             | Inr rs \<Rightarrow>
                 (case addMatchExpressions (MatchExpressions l) rs of
                    Inl e \<Rightarrow> Inl e
                  | Inr rs' \<Rightarrow> Inr (Requirements rs'))))"

text \<open>The first lines of \<^verbatim>\<open>Restore\<close>: a request without a label selector gets the empty,
  non-nil selector before the conversion.\<close>

definition restoreSelector :: "LabelSelector option \<Rightarrow> err + Selector" where
  "restoreSelector labelSelector =
     (let ls = (case labelSelector of
                  None \<Rightarrow> \<lparr>MatchLabels = [], MatchExpressions = []\<rparr>
                | Some l \<Rightarrow> l)
      in LabelSelectorAsSelector (Some ls))"

section \<open>Restore engine: data and collaborators\<close>

record RestoreResult =
  Ark :: "string list"
  Cluster :: "string list"
  Namespaces :: "(string, string list) fmap"

definition emptyResult :: RestoreResult where
  "emptyResult = \<lparr>Ark = [], Cluster = [], Namespaces = fmempty\<rparr>"

definition nsMessages :: "RestoreResult \<Rightarrow> string \<Rightarrow> string list" where
  "nsMessages r ns = (case fmlookup (Namespaces r) ns of None \<Rightarrow> [] | Some ms \<Rightarrow> ms)"

text \<open>\<^verbatim>\<open>merge\<close>: the lists of \<open>b\<close> are appended to those of \<open>a\<close>, namespace by namespace.\<close>

definition merge :: "RestoreResult \<Rightarrow> RestoreResult \<Rightarrow> RestoreResult" where
  "merge a b =
     \<lparr>Ark = Ark a @ Ark b,
      Cluster = Cluster a @ Cluster b,
      Namespaces = Namespaces a ++\<^sub>f fmmap_keys (\<lambda>k v. nsMessages a k @ v) (Namespaces b)\<rparr>"

definition addArkError :: "RestoreResult \<Rightarrow> err \<Rightarrow> RestoreResult" where
  "addArkError r e = r\<lparr>Ark := Ark r @ [e]\<rparr>"

text \<open>\<^verbatim>\<open>addToResult\<close> for an error that is not nil. The code calls \<^verbatim>\<open>e.Error()\<close>, which
  panics on a nil error; the one call that can pass nil is modelled where it stands.\<close>

definition addToResult :: "RestoreResult \<Rightarrow> string \<Rightarrow> err \<Rightarrow> RestoreResult" where
  "addToResult r ns e =
     (if ns = [] then r\<lparr>Cluster := Cluster r @ [e]\<rparr>
      else r\<lparr>Namespaces := fmupd ns (nsMessages r ns @ [e]) (Namespaces r)\<rparr>)"

record VolumeBackupInfo =
  SnapshotID :: string
  VolumeType :: string
  AvailabilityZone :: string
  Iops :: "int option"

record Backup =
  SnapshotVolumes :: "bool option"
  VolumeBackups :: "(string, VolumeBackupInfo) fmap"

text \<open>The restore request. Its namespace include and exclude lists are used through the
  filter built from them.\<close>

record Restore =
  restoreName :: string
  BackupName :: string
  NamespaceMapping :: "(string, string) fmap"
  IncludeClusterResources :: "bool option"
  RestorePVs :: "bool option"
  restoreLabelSelector :: "LabelSelector option"
  namespaceFilter :: IncludesExcludes

text \<open>What a collaborator hands back as a \<^verbatim>\<open>runtime.Unstructured\<close>: an
  \<^verbatim>\<open>*unstructured.Unstructured\<close>, or a value of another type (named by \<^verbatim>\<open>%T\<close>).\<close>

datatype updated = Unstructured obj | OtherType string

record BlockStore =
  CreateVolumeFromSnapshot :: "string \<Rightarrow> string \<Rightarrow> string \<Rightarrow> int option \<Rightarrow> err + string"
  SetVolumeID :: "obj \<Rightarrow> string \<Rightarrow> err + updated"

record pvRestorer =
  snapshotVolumes :: "bool option"
  restorePVs :: "bool option"
  volumeBackups :: "(string, VolumeBackupInfo) fmap"
  blockStore :: "BlockStore option"

text \<open>Modelled from the spec: \<^verbatim>\<open>boolptr.IsSetToFalse\<close>, of a package that is not among the
  sources (section 4.4: snapshotting was disabled, PV restore is disabled): the flag is set,
  and set to false.\<close>

definition IsSetToFalse :: "bool option \<Rightarrow> bool" where
  "IsSetToFalse b = (b = Some False)"

text \<open>\<^verbatim>\<open>executePVAction\<close>. The two deletions act on the \<^verbatim>\<open>spec\<close> map of the item itself,
  so every result that is not an error carries them.\<close>

definition executePVAction :: "pvRestorer \<Rightarrow> obj \<Rightarrow> err + obj" where
  "executePVAction r ob =
     (let pvName = GetName ob in
      if pvName = [] then Inl ''PersistentVolume is missing its name''
      else
        case GetMap ob ''spec'' of
          Inl e \<Rightarrow> Inl e
        | Inr spec \<Rightarrow>
            let ob1 = fmupd ''spec'' (JObj (fmdrop ''storageClassName'' (fmdrop ''claimRef'' spec))) ob in
            if IsSetToFalse (snapshotVolumes r) then Inr ob1
            else if IsSetToFalse (restorePVs r) then Inr ob1
            else
              case fmlookup (volumeBackups r) pvName of
                None \<Rightarrow> Inr ob1
              | Some backupInfo \<Rightarrow>
                  (case blockStore r of
                     None \<Rightarrow> Inl ''you must configure a persistentVolumeProvider to restore PersistentVolumes from snapshots''
                   | Some bs \<Rightarrow>
                       (case CreateVolumeFromSnapshot bs (SnapshotID backupInfo) (VolumeType backupInfo)
                               (AvailabilityZone backupInfo) (Iops backupInfo) of
                          Inl e \<Rightarrow> Inl e
                        | Inr volumeID \<Rightarrow>
                            (case SetVolumeID bs ob1 volumeID of
                               Inl e \<Rightarrow> Inl e
                             | Inr (OtherType t) \<Rightarrow> Inl (''unexpected type '' @ t)
                             | Inr (Unstructured updated2) \<Rightarrow> Inr updated2))))"

text \<open>An item action after \<^verbatim>\<open>resolveActions\<close>. \<open>Execute\<close> returns the updated item, a
  warning and an error.\<close>

record resolvedAction =
  Execute :: "obj \<Rightarrow> updated \<times> err option \<times> err option"
  resourceIncludesExcludes :: IncludesExcludes
  namespaceIncludesExcludes :: IncludesExcludes
  actionSelector :: Selector

text \<open>The \<^verbatim>\<open>archive.Reader\<close> interface as \<^verbatim>\<open>restoreFromArchive\<close> consumes it.\<close>

record Reader =
  readerGetResourceScope :: "string \<Rightarrow> ResourceScope \<times> bool \<times> err option"
  readerListNamespaces :: "string \<Rightarrow> err + string list"
  readerListContents :: "string \<Rightarrow> string \<Rightarrow> err + string list"
  readerGet :: "string \<Rightarrow> string \<Rightarrow> string \<Rightarrow> err + string"

text \<open>A \<^verbatim>\<open>v1.Namespace\<close> as far as \<^verbatim>\<open>getNamespace\<close> fills it; the spec of a namespace is
  its list of finalizers.\<close>

record Namespace =
  objectName :: string
  objectLabels :: "(string, string) fmap"
  objectAnnotations :: "(string, string) fmap"
  objectSpec :: "string list"

text \<open>A dynamic client is made for a group-version, a resource and a namespace.\<close>

type_synonym clientKey = "string \<times> string \<times> string"

datatype createResult = Created obj | AlreadyExists err | CreateFailed err

text \<open>The cluster behind the dynamic-client factory and the namespace client; \<open>'c\<close> is its
  state. \<open>EnsureNamespaceExists\<close> is the helper of the kube package (not among the sources)
  on the namespace client: get-or-create, with an error when neither works.\<close>

record 'c ClusterAPI =
  ClientForGroupVersionResource :: "string \<Rightarrow> string \<Rightarrow> bool \<Rightarrow> string \<Rightarrow> err option"
  dynCreate :: "clientKey \<Rightarrow> 'c \<Rightarrow> obj \<Rightarrow> createResult \<times> 'c"
  dynGet :: "clientKey \<Rightarrow> 'c \<Rightarrow> string \<Rightarrow> err + obj"
  dynPatch :: "clientKey \<Rightarrow> 'c \<Rightarrow> string \<Rightarrow> obj \<Rightarrow> err option \<times> 'c"
  dynWatch :: "clientKey \<Rightarrow> 'c \<Rightarrow> err option"
  EnsureNamespaceExists :: "'c \<Rightarrow> Namespace \<Rightarrow> err option \<times> 'c"

text \<open>The calls the engine makes on the cluster, recorded in order.\<close>

datatype call =
    CallCreate clientKey obj
  | CallGet clientKey string
  | CallPatch clientKey string obj
  | CallWatch clientKey
  | CallEnsureNamespace Namespace

text \<open>The \<^verbatim>\<open>context\<close> of a restore: what stays fixed during it. \<open>unmarshal\<close> and
  \<open>unmarshalNamespace\<close> are \<^verbatim>\<open>json.Unmarshal\<close> into an unstructured document and into a
  \<^verbatim>\<open>v1.Namespace\<close>; \<open>podSnapshotAnnotations\<close> is \<^verbatim>\<open>len(restic.GetPodSnapshotAnnotations(obj))\<close>;
  \<open>resticRestorer\<close>, when configured, is the task that restores the volumes of a created pod
  and returns its errors.\<close>

record 'c "context" =
  backup :: Backup
  restore :: Restore
  prioritizedResources :: "GroupResource list"
  selector :: Selector
  actions :: "resolvedAction list"
  api :: "'c ClusterAPI"
  ctxPVRestorer :: pvRestorer
  resticRestorer :: "(obj \<Rightarrow> err list) option"
  unmarshal :: "string \<Rightarrow> err + obj"
  unmarshalNamespace :: "string \<Rightarrow> err + Namespace"
  podSnapshotAnnotations :: "obj \<Rightarrow> nat"

text \<open>What changes during a restore: the two results under construction and the client and
  watch of the resource at hand (locals of \<^verbatim>\<open>restoreResource\<close>); the provisioning set, the
  open watches and the two groups of background tasks (fields of the context); the cluster
  and the record of the calls made on it. A background task is recorded by what it works
  on: the name of the persistent volume that a readiness task waits for, the created pod
  whose volumes a restore task restores.\<close>

record 'c rstate =
  warnings :: RestoreResult
  errs :: RestoreResult
  resourceClient :: "clientKey option"
  resourceWatch :: bool
  pvsToProvision :: "string set"
  resourceWatches :: "clientKey list"
  resourceWaitGroup :: "string list"
  globalWaitGroup :: "obj list"
  cluster :: 'c
  calls :: "call list"

datatype flow = Continue | Return | Panic

definition addError :: "'c rstate \<Rightarrow> string \<Rightarrow> err \<Rightarrow> 'c rstate" where
  "addError st ns e = st\<lparr>errs := addToResult (errs st) ns e\<rparr>"

definition addWarning :: "'c rstate \<Rightarrow> string \<Rightarrow> err \<Rightarrow> 'c rstate" where
  "addWarning st ns e = st\<lparr>warnings := addToResult (warnings st) ns e\<rparr>"

subsection \<open>Conflict resolution for service accounts\<close>

text \<open>Modelled from the spec: \<^verbatim>\<open>mergeServiceAccounts\<close>, which is not among the sources
  (section 4.3 step 12: a merge of secrets and image-pull-secrets, union, de-duplicated,
  preserving live entries). The result is the live object with each of the two lists
  replaced by the de-duplicated union of the live and the backed-up list: the live entries
  in their order, then the backed-up entries that the live list lacks, every entry once. A
  list field that is present and is no list is an error.\<close>

definition listField :: "obj \<Rightarrow> string \<Rightarrow> err + json list" where
  "listField ob k =
     (case fmlookup ob k of
        None \<Rightarrow> Inr []
      | Some JNull \<Rightarrow> Inr []
      | Some (JArr xs) \<Rightarrow> Inr xs
      | Some _ \<Rightarrow> Inl (''cannot convert field '' @ k))"

fun addMissing :: "json list \<Rightarrow> json list \<Rightarrow> json list" where
  "addMissing merged [] = merged"
| "addMissing merged (s # ss) =
     addMissing (if s \<in> set merged then merged else merged @ [s]) ss"

definition mergeEntries :: "json list \<Rightarrow> json list \<Rightarrow> json list" where
  "mergeEntries live backedUp = addMissing [] (live @ backedUp)"

definition setListField :: "obj \<Rightarrow> string \<Rightarrow> json list \<Rightarrow> obj" where
  "setListField ob k xs = (if xs = [] then ob else fmupd k (JArr xs) ob)"

definition mergeServiceAccounts :: "obj \<Rightarrow> obj \<Rightarrow> err + obj" where
  "mergeServiceAccounts fromCluster fromBackup =
     (case listField fromCluster ''imagePullSecrets'' of Inl e \<Rightarrow> Inl e | Inr clusterIPS \<Rightarrow>
      case listField fromCluster ''secrets'' of Inl e \<Rightarrow> Inl e | Inr clusterSecrets \<Rightarrow>
      case listField fromBackup ''imagePullSecrets'' of Inl e \<Rightarrow> Inl e | Inr backupIPS \<Rightarrow>
      case listField fromBackup ''secrets'' of Inl e \<Rightarrow> Inl e | Inr backupSecrets \<Rightarrow>
        Inr (setListField
              (setListField fromCluster ''imagePullSecrets'' (mergeEntries clusterIPS backupIPS))
              ''secrets'' (mergeEntries clusterSecrets backupSecrets)))"

text \<open>Modelled from the spec: \<^verbatim>\<open>generatePatch\<close>, which is not among the sources (section
  4.3 step 12: the merge is applied as a patch; section 6: the client takes merge-patch
  bytes). As the caller's comment says, there is no patch (nil) when the in-cluster and the
  desired state are the same. The merge patch is taken at the top level of the document:
  each field of the desired state that differs, and null for each field that is gone; the
  two states differ in list fields only, which a merge patch replaces as a whole.\<close>

definition createMergePatch :: "obj \<Rightarrow> obj \<Rightarrow> obj" where
  "createMergePatch original modified =
     fmmap (\<lambda>v. JNull) (fmfilter (\<lambda>k. fmlookup modified k = None) original)
       ++\<^sub>f fmfilter (\<lambda>k. fmlookup original k \<noteq> fmlookup modified k) modified"

definition generatePatch :: "obj \<Rightarrow> obj \<Rightarrow> err + obj option" where
  "generatePatch fromCluster desired =
     (if fromCluster = desired then Inr None
      else Inr (Some (createMergePatch fromCluster desired)))"

section \<open>Restore engine: one resource type in one namespace (restoreResource)\<close>

text \<open>The part of the messages that names the item: \<^verbatim>\<open>item %q for resource %q in
  namespace %q\<close>.\<close>

definition itemText :: "string \<Rightarrow> string \<Rightarrow> string \<Rightarrow> string" where
  "itemText file resource ns =
     ''item '' @ quoted file @ '' for resource '' @ quoted resource @ '' in namespace '' @ quoted ns"

text \<open>A stage of the loop body either ends the work on the item (\<open>Inl\<close>, with how the loop
  goes on) or hands the item on (\<open>Inr\<close>).\<close>

type_synonym 'c stage = "(flow \<times> 'c rstate) + (obj \<times> 'c rstate)"

text \<open>The client of the resource is made once, from the first item that gets this far.\<close>

definition ensureClient ::
  "'c context \<Rightarrow> GroupResource \<Rightarrow> string \<Rightarrow> obj \<Rightarrow> 'c rstate \<Rightarrow> 'c rstate + (clientKey \<times> 'c rstate)" where
  "ensureClient ctx groupResource ns ob st =
     (case resourceClient st of
        Some key \<Rightarrow> Inr (key, st)
      | None \<Rightarrow>
          (case ClientForGroupVersionResource (api ctx) (GetAPIVersion ob) (Resource groupResource)
                  (ns \<noteq> []) ns of
             Some e \<Rightarrow>
               Inl (st\<lparr>errs := addArkError (errs st)
                      (''error getting resource client for namespace '' @ quoted ns @ '', resource '' @
                       quoted (GroupResource_String groupResource) @ '': '' @ e)\<rparr>)
           | None \<Rightarrow>
               Inr ((GetAPIVersion ob, Resource groupResource, ns),
                    st\<lparr>resourceClient := Some (GetAPIVersion ob, Resource groupResource, ns)\<rparr>)))"

text \<open>Persistent volumes. The readiness task is started inside the branch that opens the
  watch.\<close>

definition pvStage ::
  "'c context \<Rightarrow> string \<Rightarrow> string \<Rightarrow> GroupResource \<Rightarrow> string \<Rightarrow> clientKey \<Rightarrow> string \<Rightarrow> obj
     \<Rightarrow> 'c rstate \<Rightarrow> 'c stage" where
  "pvStage ctx resource ns groupResource file key name ob st =
     (if groupResource \<noteq> PersistentVolumes then Inr (ob, st)
      else
        let found = (fmlookup (VolumeBackups (backup ctx)) name \<noteq> None);
            reclaimPolicy = GetString ob ''spec.persistentVolumeReclaimPolicy''
        in
        if isl reclaimPolicy = False \<and> \<not> found \<and> reclaimPolicy = Inr ''Delete''
        then Inl (Continue, st\<lparr>pvsToProvision := insert name (pvsToProvision st)\<rparr>)
        else
          case executePVAction (ctxPVRestorer ctx) ob of
            Inl e \<Rightarrow>
              Inl (Continue, addError st ns
                     (''error executing PVAction for '' @ itemText file resource ns @ '': '' @ e))
          | Inr updatedObj \<Rightarrow>
              if \<not> resourceWatch st then
                (case dynWatch (api ctx) key (cluster st) of
                   Some e \<Rightarrow>
                     Inl (Return, addError (st\<lparr>calls := calls st @ [CallWatch key]\<rparr>) ns
                            (''error watching for namespace '' @ quoted ns @ '', resource '' @
                             quoted (GroupResource_String groupResource) @ '': '' @ e))
                 | None \<Rightarrow>
                     Inr (updatedObj,
                          st\<lparr>resourceWatch := True,
                             resourceWatches := resourceWatches st @ [key],
                             resourceWaitGroup := resourceWaitGroup st @ [name],
                             calls := calls st @ [CallWatch key]\<rparr>))
              else Inr (updatedObj, st))"

text \<open>Persistent volume claims. The type assertion \<^verbatim>\<open>volumeName.(string)\<close> panics on a
  volume name that is no string.\<close>

definition pvcStage ::
  "string \<Rightarrow> GroupResource \<Rightarrow> obj \<Rightarrow> 'c rstate \<Rightarrow> 'c stage" where
  "pvcStage ns groupResource ob st =
     (if groupResource \<noteq> PersistentVolumeClaims then Inr (ob, st)
      else
        case GetMap ob ''spec'' of
          Inl e \<Rightarrow> Inl (Continue, addError st ns e)
        | Inr spec \<Rightarrow>
            (case fmlookup spec ''volumeName'' of
               None \<Rightarrow> Inr (ob, st)
             | Some (JStr volumeName) \<Rightarrow>
                 if volumeName \<in> pvsToProvision st then
                   (let ob1 = fmupd ''spec'' (JObj (fmdrop ''volumeName'' spec)) ob;
                        annotations = fmdrop ''pv.kubernetes.io/bound-by-controller''
                                        (fmdrop ''pv.kubernetes.io/bind-completed'' (GetAnnotations ob1))
                    in Inr (SetAnnotations ob1 annotations, st))
                 else Inr (ob, st)
             | Some _ \<Rightarrow> Inl (Panic, st)))"

text \<open>The loop over the applicable actions. The warning of an action is recorded by wrapping
  \<^verbatim>\<open>err\<close>, not \<^verbatim>\<open>warning\<close>: with a warning and no error, \<^verbatim>\<open>Wrapf\<close> yields nil and
  \<^verbatim>\<open>addToResult\<close> panics (\<open>Inl\<close>). The \<^verbatim>\<open>continue\<close> after an error is that of this loop:
  the next action runs on the item as it was.\<close>

fun runActions ::
  "string \<Rightarrow> string \<Rightarrow> string \<Rightarrow> resolvedAction list \<Rightarrow> obj \<Rightarrow> 'c rstate
     \<Rightarrow> 'c rstate + (obj \<times> 'c rstate)" where
  "runActions resource ns file [] ob st = Inr (ob, st)"
| "runActions resource ns file (action # rest) ob st =
     (if \<not> Matches (actionSelector action) (GetLabels ob) then runActions resource ns file rest ob st
      else
        case Execute action ob of (updatedObj, warning, e) \<Rightarrow>
          (case (if warning \<noteq> None
                 then (case Wrapf e (''warning preparing '' @ itemText file resource ns) of
                         None \<Rightarrow> None
                       | Some m \<Rightarrow> Some (addWarning st ns m))
                 else Some st) of
             None \<Rightarrow> Inl st
           | Some st1 \<Rightarrow>
               (case e of
                  Some msg \<Rightarrow>
                    runActions resource ns file rest ob
                      (addError st1 ns (''error preparing '' @ itemText file resource ns @ '': '' @ msg))
                | None \<Rightarrow>
                    (case updatedObj of
                       OtherType t \<Rightarrow>
                         runActions resource ns file rest ob
                           (addError st1 ns (''unexpected type '' @ t @ '' for '' @ itemText file resource ns))
                     | Unstructured unstructuredObj \<Rightarrow>
                         runActions resource ns file rest unstructuredObj st1))))"

text \<open>The item exists already: compare with the live object and resolve the conflict.\<close>

definition conflictStage ::
  "'c context \<Rightarrow> string \<Rightarrow> GroupResource \<Rightarrow> clientKey \<Rightarrow> string \<Rightarrow> obj \<Rightarrow> err \<Rightarrow> 'c rstate
     \<Rightarrow> flow \<times> 'c rstate" where
  "conflictStage ctx ns groupResource key name ob restoreErr st0 =
     (let st = st0\<lparr>calls := calls st0 @ [CallGet key name]\<rparr> in
      case dynGet (api ctx) key (cluster st0) name of
        Inl e \<Rightarrow> (Continue, addWarning st ns e)
      | Inr live \<Rightarrow>
          (case resetMetadataAndStatus live of
             Inl e \<Rightarrow> (Continue, addWarning st ns e)
           | Inr stripped \<Rightarrow>
               let fromCluster = addRestoreLabels stripped
                                   (lookupStr (GetLabels ob) RestoreNameLabel)
                                   (lookupStr (GetLabels ob) BackupNameLabel)
               in
               if fromCluster = ob then (Continue, st)
               else if groupResource = ServiceAccounts then
                 (case mergeServiceAccounts fromCluster ob of
                    Inl e \<Rightarrow> (Continue, addWarning st ns e)
                  | Inr desired \<Rightarrow>
                      (case generatePatch fromCluster desired of
                         Inl e \<Rightarrow> (Continue, addWarning st ns e)
                       | Inr None \<Rightarrow> (Continue, st)
                       | Inr (Some patchBytes) \<Rightarrow>
                           (case dynPatch (api ctx) key (cluster st) name patchBytes of
                              (Some e, c1) \<Rightarrow>
                                (Continue, addWarning
                                   (st\<lparr>cluster := c1, calls := calls st @ [CallPatch key name patchBytes]\<rparr>)
                                   ns e)
                            | (None, c1) \<Rightarrow>
                                (Continue,
                                 st\<lparr>cluster := c1, calls := calls st @ [CallPatch key name patchBytes]\<rparr>))))
               else
                 (Continue, addWarning st ns
                    (''not restored: '' @ restoreErr @ '' and is different from backed up version.''))))"

definition createStage ::
  "'c context \<Rightarrow> string \<Rightarrow> string \<Rightarrow> GroupResource \<Rightarrow> string \<Rightarrow> clientKey \<Rightarrow> string \<Rightarrow> obj
     \<Rightarrow> 'c rstate \<Rightarrow> flow \<times> 'c rstate" where
  "createStage ctx resource ns groupResource file key name ob st0 =
     (case dynCreate (api ctx) key (cluster st0) ob of (res, c1) \<Rightarrow>
        let st = st0\<lparr>cluster := c1, calls := calls st0 @ [CallCreate key ob]\<rparr> in
        case res of
          AlreadyExists restoreErr \<Rightarrow> conflictStage ctx ns groupResource key name ob restoreErr st
        | CreateFailed restoreErr \<Rightarrow>
            (Continue, addError st ns
               (''error restoring '' @ itemText file resource ns @ '': '' @ restoreErr))
        | Created createdObj \<Rightarrow>
            if groupResource = Pods \<and> podSnapshotAnnotations ctx ob > 0 then
              (case resticRestorer ctx of
                 None \<Rightarrow> (Continue, st)
               | Some restorer \<Rightarrow> (Continue, st\<lparr>globalWaitGroup := globalWaitGroup st @ [createdObj]\<rparr>))
            else (Continue, st))"

text \<open>The steps between the actions and the create call: strip, set the namespace, label.\<close>

definition prepareStage :: "'c context \<Rightarrow> string \<Rightarrow> obj \<Rightarrow> err + obj" where
  "prepareStage ctx ns ob =
     (case resetMetadataAndStatus ob of
        Inl e \<Rightarrow> Inl e
      | Inr ob1 \<Rightarrow>
          Inr (addRestoreLabels (if ns \<noteq> [] then SetNamespace ob1 ns else ob1)
                 (restoreName (restore ctx)) (BackupName (restore ctx))))"

text \<open>The loop body from the handling of persistent volume claims on.\<close>

definition finishItem ::
  "'c context \<Rightarrow> string \<Rightarrow> string \<Rightarrow> GroupResource \<Rightarrow> resolvedAction list \<Rightarrow> string \<Rightarrow> clientKey
     \<Rightarrow> string \<Rightarrow> obj \<Rightarrow> 'c rstate \<Rightarrow> flow \<times> 'c rstate" where
  "finishItem ctx resource ns groupResource applicableActions file key name ob2 st2 =
     (case pvcStage ns groupResource ob2 st2 of
        Inl done \<Rightarrow> done
      | Inr (ob3, st3) \<Rightarrow>
          (case runActions resource ns file applicableActions ob3 st3 of
             Inl st4 \<Rightarrow> (Panic, st4)
           | Inr (ob4, st4) \<Rightarrow>
               (case prepareStage ctx ns ob4 of
                  Inl e \<Rightarrow> (Continue, addError st4 ns e)
                | Inr ob5 \<Rightarrow> createStage ctx resource ns groupResource file key name ob5 st4)))"

text \<open>The body of the loop over the files, once the item is read and decoded.\<close>

definition restoreObject ::
  "'c context \<Rightarrow> string \<Rightarrow> string \<Rightarrow> GroupResource \<Rightarrow> resolvedAction list \<Rightarrow> string \<Rightarrow> obj
     \<Rightarrow> 'c rstate \<Rightarrow> flow \<times> 'c rstate" where
  "restoreObject ctx resource ns groupResource applicableActions file ob st =
     (if \<not> Matches (selector ctx) (GetLabels ob) then (Continue, st)
      else
        case isCompleted ob groupResource of
          (complete, Some e) \<Rightarrow>
            (Continue, addError st ns
               (''error checking completion for '' @ itemText file resource ns @ '': '' @ e))
        | (True, None) \<Rightarrow> (Continue, st)
        | (False, None) \<Rightarrow>
            (case ensureClient ctx groupResource ns ob st of
               Inl st1 \<Rightarrow> (Return, st1)
             | Inr (key, st1) \<Rightarrow>
                 if groupResource = Pods \<and> lookupStr (GetAnnotations ob) MirrorPodAnnotationKey \<noteq> []
                 then (Continue, st1)
                 else
                   (case pvStage ctx resource ns groupResource file key (GetName ob) ob st1 of
                      Inl done \<Rightarrow> done
                    | Inr (ob2, st2) \<Rightarrow>
                        finishItem ctx resource ns groupResource applicableActions file key (GetName ob)
                          ob2 st2)))"

definition restoreItem ::
  "'c context \<Rightarrow> Reader \<Rightarrow> string \<Rightarrow> string \<Rightarrow> GroupResource \<Rightarrow> resolvedAction list \<Rightarrow> string
     \<Rightarrow> 'c rstate \<Rightarrow> flow \<times> 'c rstate" where
  "restoreItem ctx archiveReader resource ns groupResource applicableActions file st =
     (case readerGet archiveReader resource ns file of
        Inl e \<Rightarrow>
          (Continue, addError st ns (''error getting '' @ itemText file resource ns @ '': '' @ e))
      | Inr bytes \<Rightarrow>
          (case unmarshal ctx bytes of
             Inl e \<Rightarrow>
               (Continue, addError st ns (''error decoding '' @ itemText file resource ns @ '': '' @ e))
           | Inr ob \<Rightarrow> restoreObject ctx resource ns groupResource applicableActions file ob st))"

fun restoreItems ::
  "'c context \<Rightarrow> Reader \<Rightarrow> string \<Rightarrow> string \<Rightarrow> GroupResource \<Rightarrow> resolvedAction list \<Rightarrow> string list
     \<Rightarrow> 'c rstate \<Rightarrow> flow \<times> 'c rstate" where
  "restoreItems ctx archiveReader resource ns groupResource applicableActions [] st = (Continue, st)"
| "restoreItems ctx archiveReader resource ns groupResource applicableActions (file # files) st =
     (case restoreItem ctx archiveReader resource ns groupResource applicableActions file st of
        (Continue, st1) \<Rightarrow>
          restoreItems ctx archiveReader resource ns groupResource applicableActions files st1
      | (Return, st1) \<Rightarrow> (Return, st1)
      | (Panic, st1) \<Rightarrow> (Panic, st1))"

text \<open>The actions whose resource and namespace filters admit this resource and namespace.\<close>

definition applicable :: "resolvedAction list \<Rightarrow> GroupResource \<Rightarrow> string \<Rightarrow> resolvedAction list" where
  "applicable as groupResource ns =
     filter (\<lambda>action. resourceIncludesExcludes action (GroupResource_String groupResource) \<and>
                      \<not> (ns \<noteq> [] \<and> \<not> namespaceIncludesExcludes action ns)) as"

text \<open>\<^verbatim>\<open>restoreResource\<close>: the results and the client and watch are fresh for each call. The
  results are the \<open>warnings\<close> and \<open>errs\<close> of the final state; the flow is \<open>Panic\<close> when the
  call panics, and otherwise the call returns.\<close>

definition restoreResource ::
  "'c context \<Rightarrow> Reader \<Rightarrow> string \<Rightarrow> string \<Rightarrow> 'c rstate \<Rightarrow> flow \<times> 'c rstate" where
  "restoreResource ctx archiveReader resource ns st0 =
     (let st = st0\<lparr>warnings := emptyResult, errs := emptyResult,
                   resourceClient := None, resourceWatch := False\<rparr> in
      if IncludeClusterResources (restore ctx) = Some False \<and> ns = [] then (Return, st)
      else
        case readerListContents archiveReader resource ns of
          Inl e \<Rightarrow>
            (Return, addError st ns (''error reading resource directory '' @ quoted resource @ '': '' @ e))
        | Inr files \<Rightarrow>
            if length files = 0 then (Return, st)
            else
              case restoreItems ctx archiveReader resource ns (ParseGroupResource resource)
                     (applicable (actions ctx) (ParseGroupResource resource) ns) files st of
                (Panic, st1) \<Rightarrow> (Panic, st1)
              | (fl, st1) \<Rightarrow> (Return, st1))"

section \<open>Restore engine: the walk over the archive (restoreFromArchive)\<close>

definition bareNamespace :: "string \<Rightarrow> Namespace" where
  "bareNamespace remappedName =
     \<lparr>objectName = remappedName, objectLabels = fmempty, objectAnnotations = fmempty, objectSpec = []\<rparr>"

definition getNamespace :: "'c context \<Rightarrow> Reader \<Rightarrow> string \<Rightarrow> string \<Rightarrow> Namespace" where
  "getNamespace ctx archiveReader nsName remappedName =
     (case readerGet archiveReader ''namespaces'' [] (nsName @ ''.json'') of
        Inl e \<Rightarrow> bareNamespace remappedName
      | Inr nsBytes \<Rightarrow>
          (case unmarshalNamespace ctx nsBytes of
             Inl e \<Rightarrow> bareNamespace remappedName
           | Inr backupNS \<Rightarrow>
               \<lparr>objectName = remappedName,
                objectLabels = objectLabels backupNS,
                objectAnnotations = objectAnnotations backupNS,
                objectSpec = objectSpec backupNS\<rparr>))"

text \<open>The state of \<^verbatim>\<open>restoreFromArchive\<close>: its two results, the set of namespaces known to
  exist, and the state that \<^verbatim>\<open>restoreResource\<close> works on.\<close>

record 'c astate =
  accWarnings :: RestoreResult
  accErrs :: RestoreResult
  existingNamespaces :: "string set"
  inner :: "'c rstate"

definition mappedName :: "'c context \<Rightarrow> string \<Rightarrow> string" where
  "mappedName ctx nsName =
     (case fmlookup (NamespaceMapping (restore ctx)) nsName of
        Some target \<Rightarrow> target
      | None \<Rightarrow> nsName)"

text \<open>The namespace is ensured unless it is known to exist; \<open>Inl\<close> when that fails.\<close>

definition ensureNamespace ::
  "'c context \<Rightarrow> Reader \<Rightarrow> string \<Rightarrow> string \<Rightarrow> 'c astate \<Rightarrow> 'c astate + 'c astate" where
  "ensureNamespace ctx archiveReader nsName mappedNsName s =
     (if mappedNsName \<in> existingNamespaces s then Inr s
      else
        let ns = getNamespace ctx archiveReader nsName mappedNsName in
        case EnsureNamespaceExists (api ctx) (cluster (inner s)) ns of (r, c1) \<Rightarrow>
          let s1 = s\<lparr>inner := (inner s)\<lparr>cluster := c1,
                                          calls := calls (inner s) @ [CallEnsureNamespace ns]\<rparr>\<rparr> in
          case r of
            Some e \<Rightarrow> Inl (s1\<lparr>accErrs := addArkError (accErrs s1) e\<rparr>)
          | None \<Rightarrow> Inr (s1\<lparr>existingNamespaces := insert mappedNsName (existingNamespaces s1)\<rparr>))"

text \<open>The loop over the namespaces of a resource; \<open>True\<close> when it panics.\<close>

fun restoreNamespaces ::
  "'c context \<Rightarrow> Reader \<Rightarrow> string \<Rightarrow> string list \<Rightarrow> 'c astate \<Rightarrow> bool \<times> 'c astate" where
  "restoreNamespaces ctx archiveReader resource [] s = (False, s)"
| "restoreNamespaces ctx archiveReader resource (nsName # rest) s =
     (if \<not> namespaceFilter (restore ctx) nsName then restoreNamespaces ctx archiveReader resource rest s
      else
        case ensureNamespace ctx archiveReader nsName (mappedName ctx nsName) s of
          Inl s1 \<Rightarrow> restoreNamespaces ctx archiveReader resource rest s1
        | Inr s1 \<Rightarrow>
            (case restoreResource ctx archiveReader resource (mappedName ctx nsName) (inner s1) of
               (Panic, st) \<Rightarrow> (True, s1\<lparr>inner := st\<rparr>)
             | (fl, st) \<Rightarrow>
                 restoreNamespaces ctx archiveReader resource rest
                   (s1\<lparr>accWarnings := merge (accWarnings s1) (warnings st),
                       accErrs := merge (accErrs s1) (errs st),
                       inner := st\<rparr>)))"

text \<open>The loop over the prioritized resources: \<open>Return\<close> when it returns early on an archive
  error, \<open>Panic\<close> when it panics. Waiting for the readiness tasks of a resource changes none
  of the results.\<close>

fun restoreResources ::
  "'c context \<Rightarrow> Reader \<Rightarrow> GroupResource list \<Rightarrow> 'c astate \<Rightarrow> flow \<times> 'c astate" where
  "restoreResources ctx archiveReader [] s = (Continue, s)"
| "restoreResources ctx archiveReader (resource # rest) s =
     (if resource = NamespacesResource then restoreResources ctx archiveReader rest s
      else
        case readerGetResourceScope archiveReader (GroupResource_String resource) of
          (scope, exists, Some e) \<Rightarrow> (Return, s\<lparr>accErrs := addArkError (accErrs s) e\<rparr>)
        | (scope, exists, None) \<Rightarrow>
            if \<not> exists then restoreResources ctx archiveReader rest s
            else if scope = ResourceScopeCluster then
              (case restoreResource ctx archiveReader (GroupResource_String resource) [] (inner s) of
                 (Panic, st) \<Rightarrow> (Panic, s\<lparr>inner := st\<rparr>)
               | (fl, st) \<Rightarrow>
                   restoreResources ctx archiveReader rest
                     (s\<lparr>accWarnings := merge (accWarnings s) (warnings st),
                        accErrs := merge (accErrs s) (errs st),
                        inner := st\<rparr>))
            else
              (case readerListNamespaces archiveReader (GroupResource_String resource) of
                 Inl e \<Rightarrow> (Return, s\<lparr>accErrs := addArkError (accErrs s) e\<rparr>)
               | Inr namespaces \<Rightarrow>
                   (case restoreNamespaces ctx archiveReader (GroupResource_String resource) namespaces s of
                      (True, s1) \<Rightarrow> (Panic, s1)
                    | (False, s1) \<Rightarrow> restoreResources ctx archiveReader rest s1)))"

text \<open>The errors of the volume-restore tasks, as the wait on the whole-restore group returns
  them (the order among tasks is that of their start here; the code promises none).\<close>

definition waitErrs :: "'c context \<Rightarrow> 'c rstate \<Rightarrow> err list" where
  "waitErrs ctx st =
     (case resticRestorer ctx of
        None \<Rightarrow> []
      | Some restorer \<Rightarrow> concat (map restorer (globalWaitGroup st)))"

text \<open>\<^verbatim>\<open>restoreFromArchive\<close>: \<open>None\<close> when it panics, else the warnings, the errors and the
  final state.\<close>

definition restoreFromArchive ::
  "'c context \<Rightarrow> Reader \<Rightarrow> 'c rstate \<Rightarrow> (RestoreResult \<times> RestoreResult \<times> 'c rstate) option" where
  "restoreFromArchive ctx archiveReader st0 =
     (case restoreResources ctx archiveReader (prioritizedResources ctx)
             \<lparr>accWarnings = emptyResult, accErrs = emptyResult, existingNamespaces = {}, inner = st0\<rparr> of
        (Panic, s) \<Rightarrow> None
      | (Return, s) \<Rightarrow> Some (accWarnings s, accErrs s, inner s)
      | (Continue, s) \<Rightarrow>
          Some (accWarnings s,
                (accErrs s)\<lparr>Ark := Ark (accErrs s) @ waitErrs ctx (inner s)\<rparr>,
                inner s))"

text \<open>The state in which \<^verbatim>\<open>Restore\<close> starts the engine on a cluster.\<close>

definition initialState :: "'c \<Rightarrow> 'c rstate" where
  "initialState c =
     \<lparr>warnings = emptyResult, errs = emptyResult, resourceClient = None, resourceWatch = False,
      pvsToProvision = {}, resourceWatches = [], resourceWaitGroup = [], globalWaitGroup = [],
      cluster = c, calls = []\<rparr>"

section \<open>Readiness of a persistent volume (waitForReady)\<close>

text \<open>The loop of \<^verbatim>\<open>waitForReady\<close> selects between the next watch event and the timeout.
  With the timeout of one minute that \<^verbatim>\<open>restoreResource\<close> passes, the loop sees the
  finitely many events that arrive before the timeout: the list \<open>events\<close>. The result is
  the first added or modified object of the awaited name that is ready, or the timeout
  error when the events run out.\<close>

datatype eventType = Added | Modified | Deleted | ErrorEvent

datatype eventObject = UnstructuredObject obj | OtherObject string

fun waitForReady ::
  "(eventType \<times> eventObject) list \<Rightarrow> string \<Rightarrow> (obj \<Rightarrow> bool) \<Rightarrow> err + obj" where
  "waitForReady [] name ready = Inl ''failed to observe item becoming ready within the timeout''"
| "waitForReady ((t, ev) # events) name ready =
     (if t \<noteq> Added \<and> t \<noteq> Modified then waitForReady events name ready
      else
        case ev of
          OtherObject ty \<Rightarrow> waitForReady events name ready
        | UnstructuredObject ob \<Rightarrow>
            if GetName ob \<noteq> name then waitForReady events name ready
            else if \<not> ready ob then waitForReady events name ready
            else Inr ob)"

text \<open>The readiness task that \<^verbatim>\<open>restoreResource\<close> starts: on a timeout it adds a warning
  to the warnings of that call. It runs beside the engine; its effect is given here on
  the pair of results it can reach, and is not part of \<open>restoreResource\<close> above.\<close>

definition readinessTask ::
  "(eventType \<times> eventObject) list \<Rightarrow> string \<Rightarrow> RestoreResult \<times> RestoreResult
     \<Rightarrow> RestoreResult \<times> RestoreResult" where
  "readinessTask events name we =
     (case waitForReady events name isPVReady of
        Inl e \<Rightarrow>
          (addArkError (fst we)
             (''timeout reached waiting for persistent volume '' @ name @ '' to become ready''),
           snd we)
      | Inr ob \<Rightarrow> we)"

section \<open>Restore engine: the entry point (Restore)\<close>

text \<open>What \<^verbatim>\<open>Restore\<close> is given beside the request and the backup: the discovery helper and
  the configured priorities of the restorer, the resource filter that
  \<^verbatim>\<open>getResourceIncludesExcludes\<close> computes, the outcome of \<^verbatim>\<open>resolveActions\<close>, the restic
  restorer that the factory (when there is one) makes, the block store, and what extracting
  the archive yields.\<close>

record RestoreInputs =
  discoveryHelper :: Helper
  resourcePriorities :: "string list"
  resourceFilter :: IncludesExcludes
  resolvedActions :: "err + resolvedAction list"
  newResticRestorer :: "(err + (obj \<Rightarrow> err list)) option"
  restorerBlockStore :: "BlockStore option"
  extracted :: "err + Reader"

text \<open>The context that \<^verbatim>\<open>Restore\<close> builds, or the error that makes it return before the
  engine starts. \<open>env\<close> carries the request, the backup and the collaborators that stay as
  they are.\<close>

definition restoreContext :: "'c context \<Rightarrow> RestoreInputs \<Rightarrow> err + 'c context" where
  "restoreContext env inp =
     (case restoreSelector (restoreLabelSelector (restore env)) of
        Inl e \<Rightarrow> Inl e
      | Inr sel \<Rightarrow>
          (case prioritizeResources (discoveryHelper inp) (resourcePriorities inp) (resourceFilter inp) of
             Inl e \<Rightarrow> Inl e
           | Inr prioritized \<Rightarrow>
               (case resolvedActions inp of
                  Inl e \<Rightarrow> Inl e
                | Inr acts \<Rightarrow>
                    (case (case newResticRestorer inp of
                             None \<Rightarrow> Inr None
                           | Some (Inl e) \<Rightarrow> Inl e
                           | Some (Inr r) \<Rightarrow> Inr (Some r)) of
                       Inl e \<Rightarrow> Inl e
                     | Inr restic \<Rightarrow>
                         Inr (env\<lparr>prioritizedResources := prioritized,
                                  selector := sel,
                                  actions := acts,
                                  resticRestorer := restic,
                                  ctxPVRestorer :=
                                    \<lparr>snapshotVolumes = SnapshotVolumes (backup env),
                                     restorePVs = RestorePVs (restore env),
                                     volumeBackups = VolumeBackups (backup env),
                                     blockStore = restorerBlockStore inp\<rparr>\<rparr>)))))"

text \<open>\<^verbatim>\<open>Restore\<close> and \<^verbatim>\<open>execute\<close>: \<open>None\<close> when the engine panics, else the warnings and
  the errors, and the final state of the engine when it ran.\<close>

definition Restore ::
  "'c context \<Rightarrow> RestoreInputs \<Rightarrow> 'c
     \<Rightarrow> (RestoreResult \<times> RestoreResult \<times> 'c rstate option) option" where
  "Restore env inp c =
     (case restoreContext env inp of
        Inl e \<Rightarrow> Some (emptyResult, emptyResult\<lparr>Ark := [e]\<rparr>, None)
      | Inr ctx \<Rightarrow>
          (case extracted inp of
             Inl e \<Rightarrow> Some (emptyResult, emptyResult\<lparr>Ark := [e]\<rparr>, None)
           | Inr archiveReader \<Rightarrow>
               (case restoreFromArchive ctx archiveReader (initialState c) of
                  None \<Rightarrow> None
                | Some (w, e, st) \<Rightarrow> Some (w, e, Some st))))"

section \<open>An in-memory cluster and example inputs\<close>

text \<open>A cluster that stores the created objects by resource, namespace and name. Creating
  a stored name answers "already exists"; no call fails for another reason. A merge patch
  is applied at the top level of the stored object.\<close>

type_synonym memCluster = "(string \<times> string \<times> string, obj) fmap"

definition applyMergePatch :: "obj \<Rightarrow> obj \<Rightarrow> obj" where
  "applyMergePatch ob patch = fmfilter (\<lambda>k. fmlookup patch k \<noteq> Some JNull) (ob ++\<^sub>f patch)"

definition memCreate :: "clientKey \<Rightarrow> memCluster \<Rightarrow> obj \<Rightarrow> createResult \<times> memCluster" where
  "memCreate key c ob =
     (case fmlookup c (fst (snd key), snd (snd key), GetName ob) of
        Some live \<Rightarrow> (AlreadyExists (fst (snd key) @ '' '' @ quoted (GetName ob) @ '' already exists''), c)
      | None \<Rightarrow> (Created ob, fmupd (fst (snd key), snd (snd key), GetName ob) ob c))"

definition memGet :: "clientKey \<Rightarrow> memCluster \<Rightarrow> string \<Rightarrow> err + obj" where
  "memGet key c name =
     (case fmlookup c (fst (snd key), snd (snd key), name) of
        Some live \<Rightarrow> Inr live
      | None \<Rightarrow> Inl (fst (snd key) @ '' '' @ quoted name @ '' not found''))"

definition memPatch :: "clientKey \<Rightarrow> memCluster \<Rightarrow> string \<Rightarrow> obj \<Rightarrow> err option \<times> memCluster" where
  "memPatch key c name patch =
     (case fmlookup c (fst (snd key), snd (snd key), name) of
        Some live \<Rightarrow> (None, fmupd (fst (snd key), snd (snd key), name) (applyMergePatch live patch) c)
      | None \<Rightarrow> (Some (fst (snd key) @ '' '' @ quoted name @ '' not found''), c))"

definition memAPI :: "memCluster ClusterAPI" where
  "memAPI =
     \<lparr>ClientForGroupVersionResource = (\<lambda>gv name namespaced ns. None),
      dynCreate = memCreate,
      dynGet = memGet,
      dynPatch = memPatch,
      dynWatch = (\<lambda>key c. None),
      EnsureNamespaceExists = (\<lambda>c ns. (None, c))\<rparr>"

text \<open>Documents are written with \<open>doc\<close>, from their list of fields.\<close>

definition doc :: "(string \<times> json) list \<Rightarrow> json" where
  "doc kvs = JObj (fmap_of_list kvs)"

definition exRestore :: Restore where
  "exRestore =
     \<lparr>restoreName = ''r1'', BackupName = ''b1'',
      NamespaceMapping = fmap_of_list [(''ns-1'', ''ns-2'')],
      IncludeClusterResources = None, RestorePVs = None, restoreLabelSelector = None,
      namespaceFilter = (\<lambda>ns. True)\<rparr>"

definition exBackup :: Backup where
  "exBackup = \<lparr>SnapshotVolumes = None, VolumeBackups = fmempty\<rparr>"

text \<open>An example context over the in-memory cluster, with the actions as a parameter: no
  block store, no volume restorer, every label set selected. The archive of the examples
  holds each document under its own text, so that decoding is a table lookup.\<close>

definition exCtx :: "resolvedAction list \<Rightarrow> (string \<times> obj) list \<Rightarrow> memCluster context" where
  "exCtx as table =
     \<lparr>backup = exBackup, restore = exRestore, prioritizedResources = [],
      selector = Everything, actions = as, api = memAPI,
      ctxPVRestorer = \<lparr>snapshotVolumes = SnapshotVolumes exBackup, restorePVs = RestorePVs exRestore,
                       volumeBackups = VolumeBackups exBackup, blockStore = None\<rparr>,
      resticRestorer = None,
      unmarshal = (\<lambda>bytes. case map_of table bytes of
                              None \<Rightarrow> Inl ''invalid character'' | Some ob \<Rightarrow> Inr ob),
      unmarshalNamespace = (\<lambda>bytes. Inl ''invalid character''),
      podSnapshotAnnotations = (\<lambda>ob. 0)\<rparr>"

definition podP1 :: obj where
  "podP1 = fmap_of_list
     [(''apiVersion'', JStr ''v1''), (''kind'', JStr ''Pod''),
      (''metadata'', doc [(''name'', JStr ''p1''), (''namespace'', JStr ''ns-1''), (''uid'', JStr ''1234'')]),
      (''spec'', doc []),
      (''status'', doc [(''phase'', JStr ''Running'')])]"

definition podP2 :: obj where
  "podP2 = fmap_of_list
     [(''apiVersion'', JStr ''v1''), (''kind'', JStr ''Pod''),
      (''metadata'', doc [(''name'', JStr ''p2''), (''namespace'', JStr ''ns-1'')]),
      (''spec'', doc []),
      (''status'', doc [(''phase'', JStr ''Succeeded'')])]"

definition jobJ1 :: obj where
  "jobJ1 = fmap_of_list
     [(''apiVersion'', JStr ''batch/v1''), (''kind'', JStr ''Job''),
      (''metadata'', doc [(''name'', JStr ''j1''), (''namespace'', JStr ''ns-1'')]),
      (''status'', doc [(''completionTime'', JStr ''2018-06-01T00:00:00Z'')])]"

text \<open>An archive given by its files: resource, namespace directory (empty for the cluster
  directory), file name and content.\<close>

definition tableReader :: "((string \<times> string \<times> string) \<times> string) list \<Rightarrow> Reader" where
  "tableReader files =
     \<lparr>readerGetResourceScope = (\<lambda>r.
        if \<exists>k \<in> set (map fst files). fst k = r \<and> fst (snd k) = [] then (ResourceScopeCluster, True, None)
        else if \<exists>k \<in> set (map fst files). fst k = r then (ResourceScopeNamespace, True, None)
        else ([], False, None)),
      readerListNamespaces = (\<lambda>r.
        Inr (remdups (map (\<lambda>k. fst (snd k)) (filter (\<lambda>k. fst k = r) (map fst files))))),
      readerListContents = (\<lambda>r ns.
        if \<exists>k \<in> set (map fst files). fst k = r \<and> fst (snd k) = ns
        then Inr (map (\<lambda>k. snd (snd k)) (filter (\<lambda>k. fst k = r \<and> fst (snd k) = ns) (map fst files)))
        else Inl ''no such file or directory''),
      readerGet = (\<lambda>r ns f.
        case map_of files (r, ns, f) of
          None \<Rightarrow> Inl ''no such file or directory''
        | Some bytes \<Rightarrow> Inr bytes)\<rparr>"

text \<open>Two actions with the failure modes of \<^verbatim>\<open>Execute\<close>: one returns a warning and no
  error, one returns an error.\<close>

definition warnAction :: resolvedAction where
  "warnAction =
     \<lparr>Execute = (\<lambda>ob. (Unstructured ob, Some ''deprecated field'', None)),
      resourceIncludesExcludes = (\<lambda>r. True), namespaceIncludesExcludes = (\<lambda>ns. True),
      actionSelector = Everything\<rparr>"

definition failAction :: resolvedAction where
  "failAction =
     \<lparr>Execute = (\<lambda>ob. (Unstructured ob, None, Some ''boom'')),
      resourceIncludesExcludes = (\<lambda>r. True), namespaceIncludesExcludes = (\<lambda>ns. True),
      actionSelector = Everything\<rparr>"

definition renameAction :: resolvedAction where
  "renameAction =
     \<lparr>Execute = (\<lambda>ob. (Unstructured (fmupd ''kind'' (JStr ''Renamed'') ob), None, None)),
      resourceIncludesExcludes = (\<lambda>r. True), namespaceIncludesExcludes = (\<lambda>ns. True),
      actionSelector = Everything\<rparr>"

text \<open>A context that selects the items labelled \<^verbatim>\<open>app=web\<close>, and inputs of \<^verbatim>\<open>Restore\<close>
  for a request without a label selector.\<close>

definition webCtx :: "memCluster context" where
  "webCtx = (exCtx [] [(''p1'', podP1)])
     \<lparr>selector := Requirements [\<lparr>reqKey = ''app'', reqOperator = OpIn, reqValues = [''web'']\<rparr>]\<rparr>"

definition exInputs :: RestoreInputs where
  "exInputs =
     \<lparr>discoveryHelper = exHelper, resourcePriorities = [''namespaces''], resourceFilter = exFilter,
      resolvedActions = Inr [], newResticRestorer = None, restorerBlockStore = None,
      extracted = Inr (tableReader [((''pods'', ''ns-1'', ''p1.json''), ''p1'')])\<rparr>"

text \<open>The reader of an extracted archive as the \<^verbatim>\<open>archive.Reader\<close> that the engine consumes
  (the queries leave the file system as it is).\<close>

definition readerOf :: "'f gzipTarReader \<Rightarrow> Reader" where
  "readerOf rd =
     \<lparr>readerGetResourceScope = (\<lambda>r. fst (GetResourceScope rd r)),
      readerListNamespaces = (\<lambda>r. fst (ListNamespaces rd r)),
      readerListContents = (\<lambda>r ns. fst (ListContents rd r ns)),
      readerGet = (\<lambda>r ns f. fst (Get rd r ns f))\<rparr>"

text \<open>A file system in memory: the directories made and the files with their contents. A
  path is a directory when it was made or when something lies below it.\<close>

type_synonym memFiles = "string list \<times> (string \<times> string) list"

definition below :: "string \<Rightarrow> string \<Rightarrow> bool" where
  "below p q = (take (length p + 1) q = p @ ''/'')"

definition isDirectory :: "memFiles \<Rightarrow> string \<Rightarrow> bool" where
  "isDirectory f p = (p \<in> set (fst f) \<or> list_ex (below p) (fst f @ map fst (snd f)))"

definition memFS :: "memFiles FileSystem" where
  "memFS =
     \<lparr>TempDir = (\<lambda>f. (Inr ''/tmp/ark'', (''/tmp/ark'' # fst f, snd f))),
      MkdirAll = (\<lambda>f p m. (None, (p # fst f, snd f))),
      Create = (\<lambda>f p. (None, (fst f, (p, []) # snd f))),
      CopyTo = (\<lambda>f p c. (None, (fst f, (p, c) # snd f))),
      DirExists = (\<lambda>f p. Inr (isDirectory f p)),
      ReadDir = (\<lambda>f p.
        if \<not> isDirectory f p then Inl ''no such file or directory''
        else Inr (remdups (map (\<lambda>q. (takeWhile (\<lambda>c. c \<noteq> CHR ''/'') (drop (length p + 1) q),
                                     isDirectory f (p @ ''/'' @ takeWhile (\<lambda>c. c \<noteq> CHR ''/'') (drop (length p + 1) q))))
                          (filter (below p) (fst f @ map fst (snd f)))))),
      ReadFile = (\<lambda>f p. case map_of (snd f) p of None \<Rightarrow> Inl ''no such file or directory'' | Some c \<Rightarrow> Inr c),
      RemoveAll = (\<lambda>f p. (None, (filter (\<lambda>q. q \<noteq> p \<and> \<not> below p q) (fst f),
                                   filter (\<lambda>e. fst e \<noteq> p \<and> \<not> below p (fst e)) (snd f))))\<rparr>"

text \<open>An archive with the one pod \<^verbatim>\<open>p1\<close> of namespace \<^verbatim>\<open>ns-1\<close>, and a context that restores
  pods under the mapping of \<^verbatim>\<open>ns-1\<close> to \<^verbatim>\<open>ns-2\<close>.\<close>

definition podArchive :: "memFiles gzipTarReader" where
  "podArchive = NewGzipTarReader
     (Inr ([\<lparr>Name = ''resources/pods/namespaces/ns-1/p1.json'', Flag = TypeReg, Mode = 493,
             Content = ''p1''\<rparr>], None)) memFS ([], [])"

definition remapCtx :: "memCluster context" where
  "remapCtx = (exCtx [] [(''p1'', podP1)])\<lparr>prioritizedResources := [NamespacesResource, Pods]\<rparr>"

text \<open>Service accounts: the backed-up one with one or two secrets, the live ones with an
  annotation of their own, cluster metadata and a status.\<close>

definition saBackup :: "json list \<Rightarrow> obj" where
  "saBackup secrets = fmap_of_list
     [(''apiVersion'', JStr ''v1''), (''kind'', JStr ''ServiceAccount''),
      (''metadata'', doc [(''name'', JStr ''default''), (''namespace'', JStr ''ns-2'')]),
      (''secrets'', JArr secrets)]"

definition saLive :: "json list \<Rightarrow> obj" where
  "saLive secrets = fmap_of_list
     [(''apiVersion'', JStr ''v1''), (''kind'', JStr ''ServiceAccount''),
      (''metadata'', doc [(''name'', JStr ''default''), (''namespace'', JStr ''ns-2''),
                         (''uid'', JStr ''7f3a''), (''resourceVersion'', JStr ''42''),
                         (''annotations'', doc [(''owner'', JStr ''ops'')])]),
      (''secrets'', JArr secrets)]"

definition secretRef :: "string \<Rightarrow> json" where
  "secretRef n = doc [(''name'', JStr n)]"

definition saCluster :: "json list \<Rightarrow> memCluster" where
  "saCluster secrets = fmap_of_list [((''serviceaccounts'', ''ns-2'', ''default''), saLive secrets)]"

definition saKey :: clientKey where
  "saKey = (''v1'', ''serviceaccounts'', ''ns-2'')"

definition saPrepared :: "json list \<Rightarrow> obj" where
  "saPrepared secrets = projr (prepareStage (exCtx [] []) ''ns-2'' (saBackup secrets))"

definition saCompared :: "json list \<Rightarrow> obj" where
  "saCompared secrets =
     addRestoreLabels (projr (resetMetadataAndStatus (saLive secrets))) ''r1'' ''b1''"

definition saState :: "json list \<Rightarrow> memCluster rstate" where
  "saState secrets = (initialState (saCluster secrets))\<lparr>resourceClient := Some saKey\<rparr>"

text \<open>Persistent volumes without a snapshot record: one to retain, bound to a claim, and one
  to delete.\<close>

definition pvSpec :: "string \<Rightarrow> (string \<times> json) list" where
  "pvSpec policy =
     [(''persistentVolumeReclaimPolicy'', JStr policy),
      (''claimRef'', doc [(''name'', JStr ''data''), (''namespace'', JStr ''ns-1'')]),
      (''storageClassName'', JStr ''fast'')]"

definition pvItem :: "string \<Rightarrow> string \<Rightarrow> obj" where
  "pvItem name policy = fmap_of_list
     [(''apiVersion'', JStr ''v1''), (''kind'', JStr ''PersistentVolume''),
      (''metadata'', doc [(''name'', JStr name)]),
      (''spec'', doc (pvSpec policy)),
      (''status'', doc [(''phase'', JStr ''Bound'')])]"

definition pvKey :: clientKey where
  "pvKey = (''v1'', ''persistentvolumes'', [])"

text \<open>What the engine creates for a retained volume: claim reference and storage class are
  gone from the spec, the status is gone, the identification labels are set.\<close>

definition pvCreated :: "string \<Rightarrow> obj" where
  "pvCreated name = fmap_of_list
     [(''apiVersion'', JStr ''v1''), (''kind'', JStr ''PersistentVolume''),
      (''metadata'', doc [(''name'', JStr name),
         (''labels'', doc [(''ark.heptio.com/backup-name'', JStr ''b1''),
                           (''ark.heptio.com/restore-name'', JStr ''r1''),
                           (''ark-restore'', JStr ''r1'')])]),
      (''spec'', doc [(''persistentVolumeReclaimPolicy'', JStr ''Retain'')])]"

text \<open>An archive with two retained volumes, and watch events for them.\<close>

definition pvReader :: Reader where
  "pvReader = tableReader
     [((''persistentvolumes'', [], ''pv-1.json''), ''pv-1''),
      ((''persistentvolumes'', [], ''pv-2.json''), ''pv-2'')]"

definition pvCtx :: "memCluster context" where
  "pvCtx = exCtx [] [(''pv-1'', pvItem ''pv-1'' ''Retain''), (''pv-2'', pvItem ''pv-2'' ''Retain'')]"

definition pvEvent :: "string \<Rightarrow> string \<Rightarrow> obj" where
  "pvEvent name phase = fmap_of_list
     [(''metadata'', doc [(''name'', JStr name)]), (''status'', doc [(''phase'', JStr phase)])]"

text \<open>A request that selects the items labelled \<^verbatim>\<open>app=web\<close>, as the environment from which
  \<^verbatim>\<open>Restore\<close> builds its context.\<close>

definition webEnv :: "memCluster context" where
  "webEnv = (exCtx [] [(''p1'', podP1)])
     \<lparr>restore := exRestore\<lparr>restoreLabelSelector :=
        Some \<lparr>MatchLabels = [(''app'', ''web'')], MatchExpressions = []\<rparr>\<rparr>\<rparr>"

text \<open>A cluster whose live service account has a \<^verbatim>\<open>secrets\<close> field that is no list.\<close>

definition brokenSaCluster :: memCluster where
  "brokenSaCluster = fmap_of_list
     [((''serviceaccounts'', ''ns-2'', ''default''),
       fmupd ''secrets'' (JStr ''none'') (saLive []))]"

section \<open>Notions for stating what a step leaves unchanged\<close>

text \<open>Two states that differ in the recorded warnings and errors at most.\<close>

definition sameEngine :: "'c rstate \<Rightarrow> 'c rstate \<Rightarrow> bool" where
  "sameEngine st st' \<longleftrightarrow>
     resourceClient st' = resourceClient st \<and> resourceWatch st' = resourceWatch st \<and>
     pvsToProvision st' = pvsToProvision st \<and> resourceWatches st' = resourceWatches st \<and>
     resourceWaitGroup st' = resourceWaitGroup st \<and> globalWaitGroup st' = globalWaitGroup st \<and>
     cluster st' = cluster st \<and> calls st' = calls st"

text \<open>The test of \<^verbatim>\<open>restoreResource\<close> that leaves a persistent volume to dynamic
  provisioning: no snapshot record for its name, and reclaim policy Delete.\<close>

definition leftToProvisioning :: "'c context \<Rightarrow> obj \<Rightarrow> bool" where
  "leftToProvisioning ctx ob \<longleftrightarrow>
     fmlookup (VolumeBackups (backup ctx)) (GetName ob) = None \<and>
     GetString ob ''spec.persistentVolumeReclaimPolicy'' = Inr ''Delete''"

text \<open>Since a call of \<^verbatim>\<open>restoreResource\<close> began with the readiness tasks \<open>wg0\<close> and the
  watches \<open>w0\<close>, it has either opened no watch and started no task, or opened one watch and
  started one task.\<close>

definition openedAtMostOnce :: "string list \<Rightarrow> clientKey list \<Rightarrow> 'c rstate \<Rightarrow> bool" where
  "openedAtMostOnce wg0 w0 st \<longleftrightarrow>
     (\<not> resourceWatch st \<and> resourceWaitGroup st = wg0 \<and> resourceWatches st = w0) \<or>
     (resourceWatch st \<and> (\<exists>name key. resourceWaitGroup st = wg0 @ [name] \<and> resourceWatches st = w0 @ [key]))"

section \<open>Verified properties: Resource Prioritizer\<close>

lemma resolvePriorities_Inr:
  "resolvePriorities h inc rs ret seen = Inr (ret', seen') \<Longrightarrow>
     ret' = ret @ filter (\<lambda>gr. inc (GroupResource_String gr)) (map (resolved h) rs) \<and>
     seen' = seen \<union> GroupResource_String `
        set (filter (\<lambda>gr. inc (GroupResource_String gr)) (map (resolved h) rs))"
proof (induction rs arbitrary: ret seen)
  case Nil
  then show ?case by simp
next
  case (Cons r rs)
  from Cons.prems obtain gr where r: "ResourceFor h (ParseGroupResource r) = Inr gr"
    by (auto split: sum.splits)
  then have res: "resolved h r = gr" by (simp add: resolved_def)
  show ?case
  proof (cases "inc (GroupResource_String gr)")
    case True
    with Cons.prems r have
      "resolvePriorities h inc rs (ret @ [gr]) (insert (GroupResource_String gr) seen) = Inr (ret', seen')"
      by simp
    from Cons.IH[OF this] True res show ?thesis by auto
  next
    case False
    with Cons.prems r have "resolvePriorities h inc rs ret seen = Inr (ret', seen')"
      by simp
    from Cons.IH[OF this] False res show ?thesis by auto
  qed
qed

lemma resolvePriorities_fails:
  "\<exists>r \<in> set rs. isl (ResourceFor h (ParseGroupResource r)) \<Longrightarrow>
     isl (resolvePriorities h inc rs ret seen)"
  by (induction rs arbitrary: ret seen) (auto split: sum.splits)

lemma collectGroup_eq:
  "collectGroup inc seen g ns byName =
     byName @ filter (\<lambda>gr. inc (GroupResource_String gr) \<and> GroupResource_String gr \<notin> seen)
                (map (\<lambda>n. \<lparr>Group = g, Resource = n\<rparr>) ns)"
  by (induction ns arbitrary: byName) (auto simp: Let_def)

lemma collectByName_Inr:
  "collectByName inc seen rgs byName = Inr byName' \<Longrightarrow>
     byName' = byName @ filter (\<lambda>gr. inc (GroupResource_String gr) \<and> GroupResource_String gr \<notin> seen)
        (concat (map (\<lambda>rg. map (\<lambda>n. \<lparr>Group = fst (projr (ParseGroupVersion (GroupVersion rg))),
                                        Resource = n\<rparr>)
                          (APIResources rg)) rgs))"
proof (induction rgs arbitrary: byName)
  case Nil
  then show ?case by simp
next
  case (Cons rg rgs)
  from Cons.prems obtain gv where gv: "ParseGroupVersion (GroupVersion rg) = Inr gv"
    by (auto split: sum.splits)
  with Cons.prems have
    "collectByName inc seen rgs (collectGroup inc seen (fst gv) (APIResources rg) byName) = Inr byName'"
    by simp
  from Cons.IH[OF this] gv show ?case by (simp add: collectGroup_eq)
qed

lemma resolvePriorities_succeeds:
  "\<forall>r \<in> set rs. \<not> isl (ResourceFor h (ParseGroupResource r)) \<Longrightarrow>
     \<not> isl (resolvePriorities h inc rs ret seen)"
  by (induction rs arbitrary: ret seen) (auto split: sum.splits)

lemma collectByName_isl:
  "isl (collectByName inc seen rgs byName) \<longleftrightarrow>
     (\<exists>rg \<in> set rgs. isl (ParseGroupVersion (GroupVersion rg)))"
  by (induction rgs arbitrary: byName) (auto split: sum.splits)

lemma prioritizeResources_isl:
  "isl (prioritizeResources helper priorities inc) \<longleftrightarrow>
     (\<exists>r \<in> set priorities. isl (ResourceFor helper (ParseGroupResource r))) \<or>
     (\<exists>rg \<in> set (Resources helper). isl (ParseGroupVersion (GroupVersion rg)))"
proof (cases "\<exists>r \<in> set priorities. isl (ResourceFor helper (ParseGroupResource r))")
  case True
  from resolvePriorities_fails[OF True, of inc "[]" "{}"] True show ?thesis
    by (auto simp: prioritizeResources_def split: sum.splits)
next
  case False
  then have "\<not> isl (resolvePriorities helper inc priorities [] {})"
    by (intro resolvePriorities_succeeds) simp
  then obtain p seen where "resolvePriorities helper inc priorities [] {} = Inr (p, seen)"
    by (cases "resolvePriorities helper inc priorities [] {}") auto
  with False collectByName_isl[of inc seen "Resources helper" "[]"] show ?thesis
    by (auto simp: prioritizeResources_def split: sum.splits)
qed

text \<open>
  C3, as the claim states it, fails, at two inputs. The remainder is not free of
  duplicates: the second loop never inserts into the seen-set, so a group-resource that
  discovery lists twice (here under two versions of the group \<^verbatim>\<open>apps\<close>) is returned twice.
  And the remainder is not sorted by a group/resource string: the key of the sort is
  \<^verbatim>\<open>GroupResource.String()\<close>, resource first, which puts \<^verbatim>\<open>jobs.batch\<close> before
  \<^verbatim>\<open>statefulsets.apps\<close>, while \<^verbatim>\<open>apps/statefulsets\<close> is before \<^verbatim>\<open>batch/jobs\<close>.
\<close>

theorem prioritizeResources_duplicates_counterexample:
  "prioritizeResources dupHelper [] includeAll =
     Inr [\<lparr>Group = ''apps'', Resource = ''deployments''\<rparr>,
          \<lparr>Group = ''apps'', Resource = ''deployments''\<rparr>] \<and>
   prioritizeResources exHelper [''namespaces'', ''pods''] exFilter =
     Inr [\<lparr>Group = [], Resource = ''namespaces''\<rparr>, \<lparr>Group = [], Resource = ''pods''\<rparr>,
          \<lparr>Group = ''batch'', Resource = ''jobs''\<rparr>, \<lparr>Group = ''apps'', Resource = ''statefulsets''\<rparr>] \<and>
   groupSlashResource \<lparr>Group = ''apps'', Resource = ''statefulsets''\<rparr> <
     groupSlashResource \<lparr>Group = ''batch'', Resource = ''jobs''\<rparr>"
  by (simp add: prioritizeResources_def dupHelper_def includeAll_def exHelper_def exFilter_def
      ParseGroupVersion_def ParseGroupResource_def GroupResource_String_def groupSlashResource_def
      Let_def)

text \<open>
  C3, amended. The call fails exactly when a configured priority entry cannot be resolved
  via discovery or a group-version of the discovery listing cannot be parsed; the filter
  never makes it fail. A successful call returns the configured priority entries, resolved,
  in configured order, without those the filter rejects, followed by a remainder that is
  sorted by \<^verbatim>\<open>GroupResource.String()\<close> and is a permutation of the discovered
  group-resources that the filter admits and whose name is not the name of a returned
  priority entry, each as often as discovery lists it.
\<close>

theorem prioritizeResources_order:
  "(prioritizeResources helper priorities inc = Inr ret \<longrightarrow>
      (\<exists>rest. ret = filter (\<lambda>gr. inc (GroupResource_String gr)) (map (resolved helper) priorities) @ rest \<and>
         sorted (map GroupResource_String rest) \<and>
         mset rest = mset (filter (\<lambda>gr. inc (GroupResource_String gr) \<and>
              GroupResource_String gr \<notin> GroupResource_String `
                 {p \<in> set (map (resolved helper) priorities). inc (GroupResource_String p)})
              (discoveredResources helper)))) \<and>
   ((\<exists>r \<in> set priorities. isl (ResourceFor helper (ParseGroupResource r))) \<longrightarrow>
      isl (prioritizeResources helper priorities inc)) \<and>
   (isl (prioritizeResources helper priorities inc) \<longleftrightarrow>
      (\<exists>r \<in> set priorities. isl (ResourceFor helper (ParseGroupResource r))) \<or>
      (\<exists>rg \<in> set (Resources helper). isl (ParseGroupVersion (GroupVersion rg))))"
proof (intro conjI impI)
  assume a: "prioritizeResources helper priorities inc = Inr ret"
  then obtain p seen byName where
    1: "resolvePriorities helper inc priorities [] {} = Inr (p, seen)" and
    2: "collectByName inc seen (Resources helper) [] = Inr byName" and
    3: "ret = p @ sort_key GroupResource_String byName"
    by (auto simp: prioritizeResources_def split: sum.splits prod.splits)
  from resolvePriorities_Inr[OF 1] collectByName_Inr[OF 2] 3
  show "\<exists>rest. ret = filter (\<lambda>gr. inc (GroupResource_String gr)) (map (resolved helper) priorities) @ rest \<and>
         sorted (map GroupResource_String rest) \<and>
         mset rest = mset (filter (\<lambda>gr. inc (GroupResource_String gr) \<and>
              GroupResource_String gr \<notin> GroupResource_String `
                 {p \<in> set (map (resolved helper) priorities). inc (GroupResource_String p)})
              (discoveredResources helper))"
    by (intro exI[of _ "sort_key GroupResource_String byName"]) (simp add: discoveredResources_def)
next
  assume "\<exists>r \<in> set priorities. isl (ResourceFor helper (ParseGroupResource r))"
  then show "isl (prioritizeResources helper priorities inc)"
    by (simp add: prioritizeResources_isl)
next
  show "isl (prioritizeResources helper priorities inc) \<longleftrightarrow>
      (\<exists>r \<in> set priorities. isl (ResourceFor helper (ParseGroupResource r))) \<or>
      (\<exists>rg \<in> set (Resources helper). isl (ParseGroupVersion (GroupVersion rg)))"
    by (rule prioritizeResources_isl)
qed

text \<open>The witness: \<^verbatim>\<open>events\<close> is a configured priority entry that the filter rejects; it
  is omitted and the call succeeds, which the theorem gives from the entries resolving and
  the group-versions parsing alone. With the entry \<^verbatim>\<open>bogus\<close> the call fails.\<close>

theorem prioritizeResources_order_witness:
  "\<not> exFilter (GroupResource_String (resolved exHelper ''events'')) \<and>
   \<not> isl (prioritizeResources exHelper [''namespaces'', ''events'', ''pods''] exFilter) \<and>
   prioritizeResources exHelper [''namespaces'', ''events'', ''pods''] exFilter =
     Inr [\<lparr>Group = [], Resource = ''namespaces''\<rparr>, \<lparr>Group = [], Resource = ''pods''\<rparr>,
          \<lparr>Group = ''batch'', Resource = ''jobs''\<rparr>, \<lparr>Group = ''apps'', Resource = ''statefulsets''\<rparr>] \<and>
   (\<exists>rest. [\<lparr>Group = [], Resource = ''namespaces''\<rparr>, \<lparr>Group = [], Resource = ''pods''\<rparr>,
          \<lparr>Group = ''batch'', Resource = ''jobs''\<rparr>, \<lparr>Group = ''apps'', Resource = ''statefulsets''\<rparr>] =
       filter (\<lambda>gr. exFilter (GroupResource_String gr))
         (map (resolved exHelper) [''namespaces'', ''events'', ''pods'']) @ rest \<and>
       sorted (map GroupResource_String rest)) \<and>
   isl (ResourceFor exHelper (ParseGroupResource ''bogus'')) \<and>
   isl (prioritizeResources exHelper [''namespaces'', ''bogus''] exFilter)"
proof -
  have rejected: "\<not> exFilter (GroupResource_String (resolved exHelper ''events''))"
    by (simp add: exHelper_def exFilter_def resolved_def ParseGroupResource_def GroupResource_String_def)
  have resolve: "\<not> (\<exists>r \<in> set [''namespaces'', ''events'', ''pods''].
      isl (ResourceFor exHelper (ParseGroupResource r)))"
    by (simp add: exHelper_def ParseGroupResource_def)
  have parse: "\<not> (\<exists>rg \<in> set (Resources exHelper). isl (ParseGroupVersion (GroupVersion rg)))"
    by (simp add: exHelper_def ParseGroupVersion_def)
  from prioritizeResources_order[of exHelper "[''namespaces'', ''events'', ''pods'']" exFilter] resolve parse
  have succeeds: "\<not> isl (prioritizeResources exHelper [''namespaces'', ''events'', ''pods''] exFilter)"
    by blast
  have run: "prioritizeResources exHelper [''namespaces'', ''events'', ''pods''] exFilter =
     Inr [\<lparr>Group = [], Resource = ''namespaces''\<rparr>, \<lparr>Group = [], Resource = ''pods''\<rparr>,
          \<lparr>Group = ''batch'', Resource = ''jobs''\<rparr>, \<lparr>Group = ''apps'', Resource = ''statefulsets''\<rparr>]"
    by (simp add: prioritizeResources_def exHelper_def exFilter_def ParseGroupVersion_def
        GroupResource_String_def ParseGroupResource_def Let_def)
  have bogus: "isl (ResourceFor exHelper (ParseGroupResource ''bogus''))"
    by (simp add: exHelper_def ParseGroupResource_def)
  from prioritizeResources_order[of exHelper "[''namespaces'', ''events'', ''pods'']" exFilter] run
  have ok: "\<exists>rest. [\<lparr>Group = [], Resource = ''namespaces''\<rparr>, \<lparr>Group = [], Resource = ''pods''\<rparr>,
          \<lparr>Group = ''batch'', Resource = ''jobs''\<rparr>, \<lparr>Group = ''apps'', Resource = ''statefulsets''\<rparr>] =
       filter (\<lambda>gr. exFilter (GroupResource_String gr))
         (map (resolved exHelper) [''namespaces'', ''events'', ''pods'']) @ rest \<and>
       sorted (map GroupResource_String rest)"
    by blast
  from prioritizeResources_order[of exHelper "[''namespaces'', ''bogus'']" exFilter] bogus
  have failing: "isl (prioritizeResources exHelper [''namespaces'', ''bogus''] exFilter)"
    by simp
  from rejected succeeds run ok bogus failing show ?thesis by blast
qed

section \<open>Verified properties: archive reader\<close>

text \<open>
  C10: a reader is not extracted exactly as long as its \<^verbatim>\<open>tempDir\<close> is empty: a new reader
  has an empty \<^verbatim>\<open>tempDir\<close>, and an \<^verbatim>\<open>Extract\<close> that fails leaves \<^verbatim>\<open>tempDir\<close> as it was.
  On such a reader \<^verbatim>\<open>GetResourceScope\<close>, \<^verbatim>\<open>ListNamespaces\<close>, \<^verbatim>\<open>ListContents\<close> and \<^verbatim>\<open>Get\<close>
  return the error "archive has not been extracted" and \<^verbatim>\<open>Close\<close> returns nil; none of
  them touches the file system: the reader, with its file-system state and its record of
  file-system calls, is returned as it was.
\<close>

theorem not_extracted_reader:
  "tempDir (NewGzipTarReader a fsys f) = [] \<and>
   (\<forall>e r'. Extract r = (Some e, r') \<longrightarrow> tempDir r' = tempDir r) \<and>
   (tempDir r = [] \<longrightarrow>
      GetResourceScope r groupResource = (([], False, Some ErrNotExtracted), r) \<and>
      ListNamespaces r groupResource = (Inl ErrNotExtracted, r) \<and>
      ListContents r groupResource namespace = (Inl ErrNotExtracted, r) \<and>
      Get r groupResource namespace name = (Inl ErrNotExtracted, r) \<and>
      Close r = (None, r))"
proof (intro conjI allI impI)
  show "tempDir (NewGzipTarReader a fsys f) = []"
    by (simp add: NewGzipTarReader_def)
next
  fix e r'
  assume "Extract r = (Some e, r')"
  then show "tempDir r' = tempDir r"
    by (auto simp: Extract_def split: sum.splits prod.splits option.splits)
next
  assume "tempDir r = []"
  then show "GetResourceScope r groupResource = (([], False, Some ErrNotExtracted), r)"
    by (simp add: GetResourceScope_def)
next
  assume "tempDir r = []"
  then show "ListNamespaces r groupResource = (Inl ErrNotExtracted, r)"
    by (simp add: ListNamespaces_def)
next
  assume "tempDir r = []"
  then show "ListContents r groupResource namespace = (Inl ErrNotExtracted, r)"
    by (simp add: ListContents_def)
next
  assume "tempDir r = []"
  then show "Get r groupResource namespace name = (Inl ErrNotExtracted, r)"
    by (simp add: Get_def)
next
  assume "tempDir r = []"
  then show "Close r = (None, r)"
    by (simp add: Close_def)
qed

theorem not_extracted_reader_witness:
  "fst (Extract (NewGzipTarReader brokenArchive listFS [])) =
      Some ''error getting next tar header: unexpected EOF'' \<and>
   tempDir (snd (Extract (NewGzipTarReader brokenArchive listFS []))) = [] \<and>
   fsCalls (snd (Extract (NewGzipTarReader brokenArchive listFS []))) \<noteq> [] \<and>
   Get (snd (Extract (NewGzipTarReader brokenArchive listFS []))) ''pods'' ''ns-1'' ''p1.json'' =
     (Inl ''archive has not been extracted'', snd (Extract (NewGzipTarReader brokenArchive listFS []))) \<and>
   ListContents (snd (Extract (NewGzipTarReader brokenArchive listFS []))) ''pods'' ''ns-1'' =
     (Inl ''archive has not been extracted'', snd (Extract (NewGzipTarReader brokenArchive listFS []))) \<and>
   Close (snd (Extract (NewGzipTarReader brokenArchive listFS []))) =
     (None, snd (Extract (NewGzipTarReader brokenArchive listFS [])))"
proof -
  let ?r0 = "NewGzipTarReader brokenArchive listFS []"
  have run: "Extract ?r0 = (Some ''error getting next tar header: unexpected EOF'', snd (Extract ?r0))"
    by (simp add: Extract_def NewGzipTarReader_def brokenArchive_def listFS_def Let_def Dir_def)
  have calls: "fsCalls (snd (Extract ?r0)) \<noteq> []"
    by (simp add: Extract_def NewGzipTarReader_def brokenArchive_def listFS_def Let_def Dir_def)
  from not_extracted_reader[of brokenArchive listFS "[]" ?r0] run
  have t0: "tempDir ?r0 = []" and t1: "tempDir (snd (Extract ?r0)) = tempDir ?r0"
    by blast+
  from t0 t1 have t: "tempDir (snd (Extract ?r0)) = []" by simp
  from not_extracted_reader[of brokenArchive listFS "[]" "snd (Extract ?r0)" "''pods''" "''ns-1''" "''p1.json''"] t
  have q: "Get (snd (Extract ?r0)) ''pods'' ''ns-1'' ''p1.json'' = (Inl ErrNotExtracted, snd (Extract ?r0))"
     "ListContents (snd (Extract ?r0)) ''pods'' ''ns-1'' = (Inl ErrNotExtracted, snd (Extract ?r0))"
     "Close (snd (Extract ?r0)) = (None, snd (Extract ?r0))"
    by blast+
  from run have f: "fst (Extract ?r0) = Some ''error getting next tar header: unexpected EOF''"
    by (metis fst_conv)
  from f t calls q show ?thesis by (simp add: ErrNotExtracted_def)
qed

section \<open>Verified properties: items that are skipped\<close>

lemmas doc_defs = GetLabels_def GetAnnotations_def nestedStringMap_def NestedString_def GetName_def
  getNestedString_def GetAPIVersion_def lookupStr_def setMetadataField_def SetNamespace_def SetLabels_def
  SetAnnotations_def GetValue_def GetString_def GetMap_def resetMetadataAndStatus_def addRestoreLabels_def
  isCompleted_def doc_def

lemmas kind_defs = Pods_def Jobs_def PersistentVolumes_def PersistentVolumeClaims_def
  ServiceAccounts_def NamespacesResource_def

lemmas label_defs = BackupNameLabel_def RestoreNameLabel_def RestoreLabelKey_def MirrorPodAnnotationKey_def

text \<open>
  C5: an item that is read and decoded from the archive and is a Pod with status phase
  Succeeded or Failed, or a Job whose status has a completion time that is a non-empty
  string, leaves the whole state of the engine as it was: no call on the cluster, no
  error, no warning. For a resource type other than Pods and Jobs, \<^verbatim>\<open>isCompleted\<close> is
  false, without error.
\<close>

theorem completed_items_skipped:
  "(readerGet archiveReader resource ns fileName = Inr bytes \<and> unmarshal ctx bytes = Inr ob \<and>
    groupResource = Pods \<and> fmlookup ob ''status'' = Some (JObj status) \<and>
    fmlookup status ''phase'' = Some (JStr phase) \<and> (phase = ''Succeeded'' \<or> phase = ''Failed'')
      \<longrightarrow> restoreItem ctx archiveReader resource ns groupResource applicableActions fileName st = (Continue, st)) \<and>
   (readerGet archiveReader resource ns fileName = Inr bytes \<and> unmarshal ctx bytes = Inr ob \<and>
    groupResource = Jobs \<and> fmlookup ob ''status'' = Some (JObj status) \<and>
    fmlookup status ''completionTime'' = Some (JStr ct) \<and> ct \<noteq> []
      \<longrightarrow> restoreItem ctx archiveReader resource ns groupResource applicableActions fileName st = (Continue, st)) \<and>
   (groupResource \<noteq> Pods \<and> groupResource \<noteq> Jobs \<longrightarrow> isCompleted ob groupResource = (False, None))"
  by (auto simp: restoreItem_def restoreObject_def isCompleted_def NestedString_def Pods_def Jobs_def)

theorem completed_items_skipped_witness:
  "restoreItem (exCtx [] [(''p2'', podP2)]) (tableReader [((''pods'', ''ns-2'', ''p2.json''), ''p2'')])
      ''pods'' ''ns-2'' Pods [] ''p2.json'' (initialState fmempty) = (Continue, initialState fmempty) \<and>
   restoreItem (exCtx [] [(''j1'', jobJ1)]) (tableReader [((''jobs.batch'', ''ns-2'', ''j1.json''), ''j1'')])
      ''jobs.batch'' ''ns-2'' Jobs [] ''j1.json'' (initialState fmempty) = (Continue, initialState fmempty) \<and>
   isCompleted podP2 ServiceAccounts = (False, None)"
proof -
  have pod: "restoreItem (exCtx [] [(''p2'', podP2)]) (tableReader [((''pods'', ''ns-2'', ''p2.json''), ''p2'')])
      ''pods'' ''ns-2'' Pods [] ''p2.json'' (initialState fmempty) = (Continue, initialState fmempty)"
    using completed_items_skipped[of "tableReader [((''pods'', ''ns-2'', ''p2.json''), ''p2'')]"
        "''pods''" "''ns-2''" "''p2.json''" "''p2''" "exCtx [] [(''p2'', podP2)]" podP2 Pods
        "fmap_of_list [(''phase'', JStr ''Succeeded'')]" "''Succeeded''" "[]" "initialState fmempty"]
    by (simp add: tableReader_def exCtx_def podP2_def doc_def)
  have job: "restoreItem (exCtx [] [(''j1'', jobJ1)]) (tableReader [((''jobs.batch'', ''ns-2'', ''j1.json''), ''j1'')])
      ''jobs.batch'' ''ns-2'' Jobs [] ''j1.json'' (initialState fmempty) = (Continue, initialState fmempty)"
    using completed_items_skipped[of "tableReader [((''jobs.batch'', ''ns-2'', ''j1.json''), ''j1'')]"
        "''jobs.batch''" "''ns-2''" "''j1.json''" "''j1''" "exCtx [] [(''j1'', jobJ1)]" jobJ1 Jobs
        "fmap_of_list [(''completionTime'', JStr ''2018-06-01T00:00:00Z'')]" _ "[]" "initialState fmempty"
        "''2018-06-01T00:00:00Z''"]
    by (simp add: tableReader_def exCtx_def jobJ1_def doc_def)
  have other: "isCompleted podP2 ServiceAccounts = (False, None)"
    using completed_items_skipped[of _ _ _ _ _ _ _ ServiceAccounts]
    by (simp add: kind_defs)
  from pod job other show ?thesis by blast
qed

lemma LabelSelectorAsSelector_not_Nothing: "LabelSelectorAsSelector (Some l) \<noteq> Inr Nothing"
  by (auto simp: LabelSelectorAsSelector_def Everything_def split: sum.splits)

lemma addError_calls [simp]: "calls (addError st ns e) = calls st"
  by (simp add: addError_def)

lemma addWarning_calls [simp]: "calls (addWarning st ns e) = calls st"
  by (simp add: addWarning_def)

lemma addMatchLabels_eq:
  "addMatchLabels kvs rs =
     Inr (rs @ map (\<lambda>kv. \<lparr>reqKey = fst kv, reqOperator = OpIn, reqValues = [snd kv]\<rparr>) kvs)"
  by (induction kvs arbitrary: rs) (auto simp: NewRequirement_def)

lemma matchLabels_selector:
  "LabelSelectorAsSelector (Some \<lparr>MatchLabels = kvs, MatchExpressions = []\<rparr>) = Inr sel \<Longrightarrow>
     Matches sel ls \<longleftrightarrow> (\<forall>kv \<in> set kvs. fmlookup ls (fst kv) = Some (snd kv))"
proof -
  assume a: "LabelSelectorAsSelector (Some \<lparr>MatchLabels = kvs, MatchExpressions = []\<rparr>) = Inr sel"
  have r: "\<And>kv. reqMatches \<lparr>reqKey = fst kv, reqOperator = OpIn, reqValues = [snd kv]\<rparr> ls \<longleftrightarrow>
      fmlookup ls (fst kv) = Some (snd kv)"
    by (auto simp: reqMatches_def split: option.splits)
  from a have "sel = Requirements
      (map (\<lambda>kv. \<lparr>reqKey = fst kv, reqOperator = OpIn, reqValues = [snd kv]\<rparr>) kvs)"
    by (cases "kvs = []") (auto simp: LabelSelectorAsSelector_def Everything_def addMatchLabels_eq)
  then show ?thesis
    by (simp add: list_all_iff r)
qed

lemma restoreContext_selector:
  "restoreContext env inp = Inr ctx' \<Longrightarrow>
     restoreSelector (restoreLabelSelector (restore env)) = Inr (selector ctx')"
  by (auto simp: restoreContext_def split: sum.splits option.splits)

text \<open>
  C6: the global label selector is the conversion of the selector of the request: the
  context that \<^verbatim>\<open>Restore\<close> builds carries it, a selector of the request is converted as it
  is (match labels select the label sets that hold each of them), and a request without a
  label selector gives the selector that matches every label set, the empty one included;
  no request gives the selector that matches nothing. An item whose labels the selector of
  the context does not match leaves the whole state as it was (no call, no error); so an
  item for which any call is made on the cluster, a create call in particular, was read,
  decoded and matched by the selector.
\<close>

theorem label_selector_gate:
  "restoreSelector None = Inr Everything \<and>
   Matches Everything labels \<and>
   restoreSelector labelSelector \<noteq> Inr Nothing \<and>
   (restoreContext env inp = Inr ctx' \<and> restoreLabelSelector (restore env) = None
      \<longrightarrow> selector ctx' = Everything) \<and>
   (readerGet archiveReader resource ns fileName = Inr bytes \<and> unmarshal ctx bytes = Inr ob \<and>
    \<not> Matches (selector ctx) (GetLabels ob)
      \<longrightarrow> restoreItem ctx archiveReader resource ns groupResource applicableActions fileName st = (Continue, st)) \<and>
   (calls (snd (restoreItem ctx archiveReader resource ns groupResource applicableActions fileName st)) \<noteq> calls st
      \<longrightarrow> (\<exists>bytes ob. readerGet archiveReader resource ns fileName = Inr bytes \<and>
             unmarshal ctx bytes = Inr ob \<and> Matches (selector ctx) (GetLabels ob))) \<and>
   (restoreContext env inp = Inr ctx'
      \<longrightarrow> restoreSelector (restoreLabelSelector (restore env)) = Inr (selector ctx')) \<and>
   restoreSelector (Some l) = LabelSelectorAsSelector (Some l) \<and>
   (restoreSelector (Some \<lparr>MatchLabels = kvs, MatchExpressions = []\<rparr>) = Inr sel
      \<longrightarrow> (Matches sel labels \<longleftrightarrow> (\<forall>kv \<in> set kvs. fmlookup labels (fst kv) = Some (snd kv))))"
proof (intro conjI impI)
  show "restoreSelector None = Inr Everything"
    by (simp add: restoreSelector_def LabelSelectorAsSelector_def)
  show "Matches Everything labels"
    by (simp add: Everything_def)
  show "restoreSelector labelSelector \<noteq> Inr Nothing"
    by (simp add: restoreSelector_def LabelSelectorAsSelector_not_Nothing)
  show "restoreSelector (Some l) = LabelSelectorAsSelector (Some l)"
    by (simp add: restoreSelector_def)
next
  assume "restoreContext env inp = Inr ctx' \<and> restoreLabelSelector (restore env) = None"
  then show "selector ctx' = Everything"
    by (auto simp: restoreContext_def restoreSelector_def LabelSelectorAsSelector_def
        split: sum.splits option.splits)
next
  assume "readerGet archiveReader resource ns fileName = Inr bytes \<and> unmarshal ctx bytes = Inr ob \<and>
    \<not> Matches (selector ctx) (GetLabels ob)"
  then show "restoreItem ctx archiveReader resource ns groupResource applicableActions fileName st = (Continue, st)"
    by (simp add: restoreItem_def restoreObject_def)
next
  assume changed:
    "calls (snd (restoreItem ctx archiveReader resource ns groupResource applicableActions fileName st)) \<noteq> calls st"
  then obtain bytes where b: "readerGet archiveReader resource ns fileName = Inr bytes"
    by (cases "readerGet archiveReader resource ns fileName") (auto simp: restoreItem_def)
  with changed obtain ob where o: "unmarshal ctx bytes = Inr ob"
    by (cases "unmarshal ctx bytes") (auto simp: restoreItem_def)
  have "\<not> Matches (selector ctx) (GetLabels ob) \<Longrightarrow>
      restoreItem ctx archiveReader resource ns groupResource applicableActions fileName st = (Continue, st)"
    using b o by (simp add: restoreItem_def restoreObject_def)
  with changed have "Matches (selector ctx) (GetLabels ob)"
    by fastforce
  with b o show "\<exists>bytes ob. readerGet archiveReader resource ns fileName = Inr bytes \<and>
             unmarshal ctx bytes = Inr ob \<and> Matches (selector ctx) (GetLabels ob)"
    by blast
next
  assume "restoreContext env inp = Inr ctx'"
  then show "restoreSelector (restoreLabelSelector (restore env)) = Inr (selector ctx')"
    by (rule restoreContext_selector)
next
  assume "restoreSelector (Some \<lparr>MatchLabels = kvs, MatchExpressions = []\<rparr>) = Inr sel"
  then have "LabelSelectorAsSelector (Some \<lparr>MatchLabels = kvs, MatchExpressions = []\<rparr>) = Inr sel"
    by (simp add: restoreSelector_def)
  then show "Matches sel labels \<longleftrightarrow> (\<forall>kv \<in> set kvs. fmlookup labels (fst kv) = Some (snd kv))"
    by (rule matchLabels_selector)
qed

text \<open>The witness: a request without a label selector, and a request that selects
  \<^verbatim>\<open>app=web\<close>, each through the context that \<^verbatim>\<open>Restore\<close> builds from it. Under the second,
  the pod \<^verbatim>\<open>p1\<close>, which has no labels, is skipped; under the first it is created.\<close>

theorem label_selector_gate_witness:
  "selector (projr (restoreContext (exCtx [] []) exInputs)) = Everything \<and>
   restoreItem webCtx (tableReader [((''pods'', ''ns-2'', ''p1.json''), ''p1'')])
      ''pods'' ''ns-2'' Pods [] ''p1.json'' (initialState fmempty) = (Continue, initialState fmempty) \<and>
   Matches (selector (exCtx [] [(''p1'', podP1)])) (GetLabels podP1) \<and>
   calls (snd (restoreItem (exCtx [] [(''p1'', podP1)]) (tableReader [((''pods'', ''ns-2'', ''p1.json''), ''p1'')])
      ''pods'' ''ns-2'' Pods [] ''p1.json'' (initialState fmempty))) \<noteq> [] \<and>
   restoreContext webEnv exInputs = Inr (projr (restoreContext webEnv exInputs)) \<and>
   restoreSelector (Some \<lparr>MatchLabels = [(''app'', ''web'')], MatchExpressions = []\<rparr>) =
     Inr (selector (projr (restoreContext webEnv exInputs))) \<and>
   \<not> Matches (selector (projr (restoreContext webEnv exInputs))) (GetLabels podP1) \<and>
   Matches (selector (projr (restoreContext webEnv exInputs))) (fmap_of_list [(''app'', ''web''), (''tier'', ''front'')]) \<and>
   restoreItem (projr (restoreContext webEnv exInputs)) (tableReader [((''pods'', ''ns-2'', ''p1.json''), ''p1'')])
      ''pods'' ''ns-2'' Pods [] ''p1.json'' (initialState fmempty) = (Continue, initialState fmempty)"
proof -
  have ctx: "restoreContext (exCtx [] []) exInputs =
      Inr (projr (restoreContext (exCtx [] []) exInputs))"
    by (simp add: restoreContext_def exCtx_def exInputs_def exRestore_def restoreSelector_def
        LabelSelectorAsSelector_def prioritizeResources_def exHelper_def exFilter_def
        ParseGroupVersion_def GroupResource_String_def ParseGroupResource_def Let_def)
  have nosel: "restoreLabelSelector (restore (exCtx [] [])) = None"
    by (simp add: exCtx_def exRestore_def)
  from label_selector_gate[where env = "exCtx [] []" and inp = exInputs
      and ctx' = "projr (restoreContext (exCtx [] []) exInputs)"] ctx nosel
  have a: "selector (projr (restoreContext (exCtx [] []) exInputs)) = Everything"
    by blast
  have nomatch: "\<not> Matches (selector webCtx) (GetLabels podP1)"
    by (simp add: webCtx_def podP1_def doc_defs reqMatches_def)
  have rd: "readerGet (tableReader [((''pods'', ''ns-2'', ''p1.json''), ''p1'')]) ''pods'' ''ns-2'' ''p1.json'' = Inr ''p1''"
    by (simp add: tableReader_def)
  have dec: "unmarshal webCtx ''p1'' = Inr podP1"
    by (simp add: webCtx_def exCtx_def)
  from label_selector_gate[where ctx = webCtx and ob = podP1 and bytes = "''p1''" and resource = "''pods''"
      and ns = "''ns-2''" and fileName = "''p1.json''" and groupResource = Pods and applicableActions = "[]"
      and st = "initialState fmempty" and archiveReader = "tableReader [((''pods'', ''ns-2'', ''p1.json''), ''p1'')]"]
    nomatch rd dec
  have b: "restoreItem webCtx (tableReader [((''pods'', ''ns-2'', ''p1.json''), ''p1'')])
      ''pods'' ''ns-2'' Pods [] ''p1.json'' (initialState fmempty) = (Continue, initialState fmempty)"
    by blast
  have "Matches Everything (GetLabels podP1)"
    by (rule label_selector_gate[THEN conjunct2, THEN conjunct1])
  then have c: "Matches (selector (exCtx [] [(''p1'', podP1)])) (GetLabels podP1)"
    by (simp add: exCtx_def)
  have d: "calls (snd (restoreItem (exCtx [] [(''p1'', podP1)]) (tableReader [((''pods'', ''ns-2'', ''p1.json''), ''p1'')])
      ''pods'' ''ns-2'' Pods [] ''p1.json'' (initialState fmempty))) \<noteq> []"
    by code_simp
  let ?web = "projr (restoreContext webEnv exInputs)"
  have wctx: "restoreContext webEnv exInputs = Inr ?web"
    by (simp add: restoreContext_def webEnv_def exCtx_def exInputs_def exRestore_def restoreSelector_def
        LabelSelectorAsSelector_def NewRequirement_def prioritizeResources_def exHelper_def exFilter_def
        ParseGroupVersion_def GroupResource_String_def ParseGroupResource_def Let_def)
  have wsel: "restoreLabelSelector (restore webEnv) =
      Some \<lparr>MatchLabels = [(''app'', ''web'')], MatchExpressions = []\<rparr>"
    by (simp add: webEnv_def exRestore_def)
  from label_selector_gate[where env = webEnv and inp = exInputs and ctx' = ?web] wctx
  have e0: "restoreSelector (restoreLabelSelector (restore webEnv)) = Inr (selector ?web)"
    by blast
  from e0 wsel
  have e: "restoreSelector (Some \<lparr>MatchLabels = [(''app'', ''web'')], MatchExpressions = []\<rparr>) =
      Inr (selector ?web)"
    by simp
  have labels1: "fmlookup (GetLabels podP1) ''app'' = None"
    by (simp add: podP1_def doc_defs)
  from label_selector_gate[where kvs = "[(''app'', ''web'')]" and sel = "selector ?web"
      and labels = "GetLabels podP1"] e
  have "Matches (selector ?web) (GetLabels podP1) \<longleftrightarrow>
      (\<forall>kv \<in> set [(''app'', ''web'')]. fmlookup (GetLabels podP1) (fst kv) = Some (snd kv))"
    by blast
  with labels1 have f: "\<not> Matches (selector ?web) (GetLabels podP1)"
    by simp
  from label_selector_gate[where kvs = "[(''app'', ''web'')]" and sel = "selector ?web"
      and labels = "fmap_of_list [(''app'', ''web''), (''tier'', ''front'')]"] e
  have "Matches (selector ?web) (fmap_of_list [(''app'', ''web''), (''tier'', ''front'')]) \<longleftrightarrow>
      (\<forall>kv \<in> set [(''app'', ''web'')].
         fmlookup (fmap_of_list [(''app'', ''web''), (''tier'', ''front'')]) (fst kv) = Some (snd kv))"
    by blast
  then have g: "Matches (selector ?web) (fmap_of_list [(''app'', ''web''), (''tier'', ''front'')])"
    by simp
  have wdec: "unmarshal ?web ''p1'' = Inr podP1"
    using wctx by (auto simp: restoreContext_def webEnv_def exCtx_def split: sum.splits option.splits)
  from label_selector_gate[where ctx = ?web and ob = podP1 and bytes = "''p1''" and resource = "''pods''"
      and ns = "''ns-2''" and fileName = "''p1.json''" and groupResource = Pods and applicableActions = "[]"
      and st = "initialState fmempty" and archiveReader = "tableReader [((''pods'', ''ns-2'', ''p1.json''), ''p1'')]"]
    f rd wdec
  have h: "restoreItem ?web (tableReader [((''pods'', ''ns-2'', ''p1.json''), ''p1'')])
      ''pods'' ''ns-2'' Pods [] ''p1.json'' (initialState fmempty) = (Continue, initialState fmempty)"
    by blast
  from a b c d wctx e f g h show ?thesis by blast
qed

section \<open>Verified properties: item actions\<close>

text \<open>
  C7, at two inputs. An action that returns a warning and no error: the code wraps \<^verbatim>\<open>err\<close>
  (nil) instead of the warning and \<^verbatim>\<open>addToResult\<close> panics on the nil error, so the
  restore of the resource panics and no warning is recorded. An action that returns an
  error: the error is recorded, but the \<^verbatim>\<open>continue\<close> belongs to the loop over the actions,
  so the item is not abandoned and the create call is made for it.
\<close>

theorem action_warning_and_error_defect:
  "fst (restoreObject (exCtx [warnAction] []) ''pods'' ''ns-2'' Pods [warnAction] ''p1.json'' podP1
          (initialState fmempty)) = Panic \<and>
   warnings (snd (restoreObject (exCtx [warnAction] []) ''pods'' ''ns-2'' Pods [warnAction] ''p1.json'' podP1
          (initialState fmempty))) = emptyResult \<and>
   fst (restoreObject (exCtx [failAction] []) ''pods'' ''ns-2'' Pods [failAction] ''p1.json'' podP1
          (initialState fmempty)) = Continue \<and>
   nsMessages (errs (snd (restoreObject (exCtx [failAction] []) ''pods'' ''ns-2'' Pods [failAction] ''p1.json''
          podP1 (initialState fmempty)))) ''ns-2'' =
     [''error preparing item '' @ quoted ''p1.json'' @ '' for resource '' @ quoted ''pods'' @
      '' in namespace '' @ quoted ''ns-2'' @ '': boom''] \<and>
   calls (snd (restoreObject (exCtx [failAction] []) ''pods'' ''ns-2'' Pods [failAction] ''p1.json'' podP1
          (initialState fmempty))) =
     [CallCreate (''v1'', ''pods'', ''ns-2'') (projr (prepareStage (exCtx [failAction] []) ''ns-2'' podP1))]"
  by code_simp

section \<open>Verified properties: namespace remapping\<close>

text \<open>
  C4, at the input of the claim: the archive holds the pod \<^verbatim>\<open>p1\<close> in namespace \<^verbatim>\<open>ns-1\<close>
  and the request maps \<^verbatim>\<open>ns-1\<close> to \<^verbatim>\<open>ns-2\<close>. The target namespace is ensured first, as a
  bare object (the archive has no namespace object). But \<^verbatim>\<open>restoreFromArchive\<close> passes the
  mapped name to \<^verbatim>\<open>restoreResource\<close>, which asks the archive for the contents of \<^verbatim>\<open>ns-2\<close>:
  the directory does not exist, an error is recorded for \<^verbatim>\<open>ns-2\<close>, and the pod of \<^verbatim>\<open>ns-1\<close>
  is never read and never created.
\<close>

theorem remapped_namespace_items_not_restored:
  "fst (Extract podArchive) = None \<and>
   fst (ListContents (snd (Extract podArchive)) ''pods'' ''ns-1'') = Inr [''p1.json''] \<and>
   mappedName remapCtx ''ns-1'' = ''ns-2'' \<and>
   (case restoreFromArchive remapCtx (readerOf (snd (Extract podArchive))) (initialState fmempty) of
      None \<Rightarrow> False
    | Some (w, e, st) \<Rightarrow>
        calls st = [CallEnsureNamespace (bareNamespace ''ns-2'')] \<and>
        cluster st = fmempty \<and>
        w = emptyResult \<and>
        nsMessages e ''ns-2'' =
          [''error reading resource directory '' @ quoted ''pods'' @
           '': error reading directory /tmp/ark/resources/pods/namespaces/ns-2: no such file or directory''])"
  by code_simp

section \<open>Verified properties: conflicts with live objects\<close>

lemma addMissing_set: "set (addMissing merged xs) = set merged \<union> set xs"
  by (induction xs arbitrary: merged) auto

lemma addMissing_distinct: "distinct merged \<Longrightarrow> distinct (addMissing merged xs)"
  by (induction xs arbitrary: merged) auto

lemma mergeEntries_set: "set (mergeEntries ls bs) = set ls \<union> set bs"
  by (simp add: mergeEntries_def addMissing_set)

lemma mergeEntries_distinct: "distinct (mergeEntries ls bs)"
  by (simp add: mergeEntries_def addMissing_distinct)

lemma listField_setListField_same:
  "listField ob k = Inr ls \<Longrightarrow> (xs = [] \<longrightarrow> ls = []) \<Longrightarrow> listField (setListField ob k xs) k = Inr xs"
  by (auto simp: listField_def setListField_def split: option.splits json.splits)

lemma listField_setListField_other:
  "k \<noteq> k' \<Longrightarrow> listField (setListField ob k' xs) k = listField ob k"
  by (auto simp: listField_def setListField_def)

lemma mergeEntries_Nil: "mergeEntries ls bs = [] \<Longrightarrow> ls = []"
  using mergeEntries_set[of ls bs] by auto

lemma mergeServiceAccounts_lists:
  assumes "mergeServiceAccounts fromCluster ob = Inr desired"
  shows "\<exists>ls bs li bi.
     listField fromCluster ''secrets'' = Inr ls \<and> listField ob ''secrets'' = Inr bs \<and>
     listField fromCluster ''imagePullSecrets'' = Inr li \<and> listField ob ''imagePullSecrets'' = Inr bi \<and>
     listField desired ''secrets'' = Inr (mergeEntries ls bs) \<and>
     listField desired ''imagePullSecrets'' = Inr (mergeEntries li bi) \<and>
     desired = setListField (setListField fromCluster ''imagePullSecrets'' (mergeEntries li bi))
                 ''secrets'' (mergeEntries ls bs)"
proof -
  from assms obtain ls bs li bi where
    l: "listField fromCluster ''secrets'' = Inr ls" "listField ob ''secrets'' = Inr bs"
       "listField fromCluster ''imagePullSecrets'' = Inr li" "listField ob ''imagePullSecrets'' = Inr bi"
    and d: "desired = setListField (setListField fromCluster ''imagePullSecrets'' (mergeEntries li bi))
                 ''secrets'' (mergeEntries ls bs)"
    by (auto simp: mergeServiceAccounts_def split: sum.splits)
  have s: "listField desired ''secrets'' = Inr (mergeEntries ls bs)"
    unfolding d
    by (rule listField_setListField_same)
       (use l mergeEntries_Nil in \<open>auto simp: listField_setListField_other\<close>)
  have "listField desired ''imagePullSecrets'' =
        listField (setListField fromCluster ''imagePullSecrets'' (mergeEntries li bi)) ''imagePullSecrets''"
    unfolding d by (rule listField_setListField_other) simp
  also have "\<dots> = Inr (mergeEntries li bi)"
    by (rule listField_setListField_same) (use l mergeEntries_Nil in auto)
  finally show ?thesis using l s d by blast
qed

lemma createMergePatch_lookup:
  "fmlookup (createMergePatch original modified) k =
     (if fmlookup original k = fmlookup modified k then None
      else case fmlookup modified k of None \<Rightarrow> Some JNull | Some v \<Rightarrow> Some v)"
  by (auto simp: createMergePatch_def split: option.splits)

lemma setListField_lookup:
  "fmlookup (setListField ob k xs) k' =
     (if k' = k \<and> xs \<noteq> [] then Some (JArr xs) else fmlookup ob k')"
  by (simp add: setListField_def)

text \<open>
  C1, as the claim states it, fails, at two inputs with a live service account that differs
  from the backed-up one (by an annotation). In the first the backup brings no secret that
  the live object lacks: the merged object is the live object, \<^verbatim>\<open>generatePatch\<close> returns
  nil, and nothing is applied and nothing recorded; the calls are the create and the get
  only. In the second the merge fails (the live \<^verbatim>\<open>secrets\<close> field is no list): a warning is
  recorded and again no patch is applied.
\<close>

theorem service_account_no_patch_counterexample:
  "addRestoreLabels (projr (resetMetadataAndStatus (saLive [secretRef ''token-1'']))) ''r1'' ''b1'' \<noteq>
     projr (prepareStage (exCtx [] []) ''ns-2'' (saBackup [secretRef ''token-1''])) \<and>
   restoreObject (exCtx [] []) ''serviceaccounts'' ''ns-2'' ServiceAccounts [] ''default.json''
       (saBackup [secretRef ''token-1'']) (initialState (saCluster [secretRef ''token-1''])) =
     (Continue, (initialState (saCluster [secretRef ''token-1'']))
        \<lparr>resourceClient := Some saKey,
         calls := [CallCreate saKey (projr (prepareStage (exCtx [] []) ''ns-2'' (saBackup [secretRef ''token-1'']))),
                   CallGet saKey ''default'']\<rparr>) \<and>
   restoreObject (exCtx [] []) ''serviceaccounts'' ''ns-2'' ServiceAccounts [] ''default.json''
       (saBackup [secretRef ''token-1'']) (initialState brokenSaCluster) =
     (Continue, (initialState brokenSaCluster)
        \<lparr>warnings := emptyResult\<lparr>Namespaces := fmap_of_list [(''ns-2'', [''cannot convert field secrets''])]\<rparr>,
         resourceClient := Some saKey,
         calls := [CallCreate saKey (projr (prepareStage (exCtx [] []) ''ns-2'' (saBackup [secretRef ''token-1'']))),
                   CallGet saKey ''default'']\<rparr>)"
  by code_simp

text \<open>
  C1, amended. Let the create call answer "already exists", the get call return the live
  object, and \<open>fromCluster\<close> be the live object stripped by \<^verbatim>\<open>resetMetadataAndStatus\<close> and
  labelled with the identification labels of the item.
  \<^item> Identical: the item is done with the create and the get call only; no warning, no
    error, no further call.
  \<^item> Different, and the resource type is not ServiceAccounts: the same, with the warning
    "not restored ... different from backed up version" for the scope of the item.
  \<^item> Different, ServiceAccounts, and the merge fails: the same, with the error of the merge
    as a warning for the scope of the item.
  \<^item> Different, ServiceAccounts, and the merge succeeds: the merged object has, for secrets
    and for image pull secrets, the de-duplicated union of the live and the backed-up
    entries. When the merged object differs from the live one, its merge patch is applied,
    and the patch holds the merged lists that differ from the live ones and nothing else;
    no error is recorded. When the merged object is the live one, nothing is applied and
    nothing recorded.
\<close>

theorem conflict_resolution:
  "dynCreate (api ctx) key (cluster st) ob = (AlreadyExists restoreErr, c1) \<and>
   dynGet (api ctx) key c1 name = Inr live \<and>
   resetMetadataAndStatus live = Inr stripped \<and>
   fromCluster = addRestoreLabels stripped (lookupStr (GetLabels ob) RestoreNameLabel)
                   (lookupStr (GetLabels ob) BackupNameLabel) \<and>
   st1 = st\<lparr>cluster := c1, calls := calls st @ [CallCreate key ob, CallGet key name]\<rparr> \<longrightarrow>
   (fromCluster = ob \<longrightarrow>
      createStage ctx resource ns groupResource fileName key name ob st = (Continue, st1)) \<and>
   (fromCluster \<noteq> ob \<and> groupResource \<noteq> ServiceAccounts \<longrightarrow>
      createStage ctx resource ns groupResource fileName key name ob st =
        (Continue, addWarning st1 ns
           (''not restored: '' @ restoreErr @ '' and is different from backed up version.''))) \<and>
   (fromCluster \<noteq> ob \<and> groupResource = ServiceAccounts \<and>
    mergeServiceAccounts fromCluster ob = Inl mergeErr \<longrightarrow>
      createStage ctx resource ns groupResource fileName key name ob st =
        (Continue, addWarning st1 ns mergeErr)) \<and>
   (fromCluster \<noteq> ob \<and> groupResource = ServiceAccounts \<and>
    mergeServiceAccounts fromCluster ob = Inr desired \<longrightarrow>
      (\<exists>ls bs li bi.
         listField fromCluster ''secrets'' = Inr ls \<and> listField ob ''secrets'' = Inr bs \<and>
         listField fromCluster ''imagePullSecrets'' = Inr li \<and>
         listField ob ''imagePullSecrets'' = Inr bi \<and>
         listField desired ''secrets'' = Inr (mergeEntries ls bs) \<and>
         listField desired ''imagePullSecrets'' = Inr (mergeEntries li bi) \<and>
         set (mergeEntries ls bs) = set ls \<union> set bs \<and>
         set (mergeEntries li bi) = set li \<union> set bi \<and>
         distinct (mergeEntries ls bs) \<and> distinct (mergeEntries li bi) \<and>
         (\<forall>k. fmlookup (createMergePatch fromCluster desired) k =
                (if k = ''secrets'' \<and> mergeEntries ls bs \<noteq> [] \<and>
                    fmlookup fromCluster k \<noteq> Some (JArr (mergeEntries ls bs))
                 then Some (JArr (mergeEntries ls bs))
                 else if k = ''imagePullSecrets'' \<and> mergeEntries li bi \<noteq> [] \<and>
                    fmlookup fromCluster k \<noteq> Some (JArr (mergeEntries li bi))
                 then Some (JArr (mergeEntries li bi))
                 else None))) \<and>
      (desired \<noteq> fromCluster \<longrightarrow>
         fst (createStage ctx resource ns groupResource fileName key name ob st) = Continue \<and>
         calls (snd (createStage ctx resource ns groupResource fileName key name ob st)) =
           calls st1 @ [CallPatch key name (createMergePatch fromCluster desired)] \<and>
         errs (snd (createStage ctx resource ns groupResource fileName key name ob st)) = errs st) \<and>
      (desired = fromCluster \<longrightarrow>
         createStage ctx resource ns groupResource fileName key name ob st = (Continue, st1)))"
proof (intro impI, elim conjE, intro conjI impI)
  assume h: "dynCreate (api ctx) key (cluster st) ob = (AlreadyExists restoreErr, c1)"
    "dynGet (api ctx) key c1 name = Inr live"
    "resetMetadataAndStatus live = Inr stripped"
    "fromCluster = addRestoreLabels stripped (lookupStr (GetLabels ob) RestoreNameLabel)
                   (lookupStr (GetLabels ob) BackupNameLabel)"
    "st1 = st\<lparr>cluster := c1, calls := calls st @ [CallCreate key ob, CallGet key name]\<rparr>"
  {
    assume "fromCluster = ob"
    with h show "createStage ctx resource ns groupResource fileName key name ob st = (Continue, st1)"
      by (simp add: createStage_def conflictStage_def Let_def)
  }
  {
    assume "fromCluster \<noteq> ob \<and> groupResource \<noteq> ServiceAccounts"
    with h show "createStage ctx resource ns groupResource fileName key name ob st =
        (Continue, addWarning st1 ns
           (''not restored: '' @ restoreErr @ '' and is different from backed up version.''))"
      by (simp add: createStage_def conflictStage_def Let_def)
  }
  {
    assume "fromCluster \<noteq> ob \<and> groupResource = ServiceAccounts \<and>
      mergeServiceAccounts fromCluster ob = Inl mergeErr"
    with h show "createStage ctx resource ns groupResource fileName key name ob st =
        (Continue, addWarning st1 ns mergeErr)"
      by (simp add: createStage_def conflictStage_def Let_def)
  }
  {
    assume a: "fromCluster \<noteq> ob \<and> groupResource = ServiceAccounts \<and>
      mergeServiceAccounts fromCluster ob = Inr desired"
    then have m: "mergeServiceAccounts fromCluster ob = Inr desired" by simp
    from mergeServiceAccounts_lists[OF m] obtain ls bs li bi where
      l: "listField fromCluster ''secrets'' = Inr ls" "listField ob ''secrets'' = Inr bs"
         "listField fromCluster ''imagePullSecrets'' = Inr li" "listField ob ''imagePullSecrets'' = Inr bi"
         "listField desired ''secrets'' = Inr (mergeEntries ls bs)"
         "listField desired ''imagePullSecrets'' = Inr (mergeEntries li bi)"
      and d: "desired = setListField (setListField fromCluster ''imagePullSecrets'' (mergeEntries li bi))
                 ''secrets'' (mergeEntries ls bs)"
      by blast
    have p: "\<forall>k. fmlookup (createMergePatch fromCluster desired) k =
                (if k = ''secrets'' \<and> mergeEntries ls bs \<noteq> [] \<and>
                    fmlookup fromCluster k \<noteq> Some (JArr (mergeEntries ls bs))
                 then Some (JArr (mergeEntries ls bs))
                 else if k = ''imagePullSecrets'' \<and> mergeEntries li bi \<noteq> [] \<and>
                    fmlookup fromCluster k \<noteq> Some (JArr (mergeEntries li bi))
                 then Some (JArr (mergeEntries li bi))
                 else None)"
      unfolding d by (auto simp: createMergePatch_lookup setListField_lookup)
    have e1: "distinct (mergeEntries ls bs)"
      by (rule mergeEntries_distinct)
    have e2: "distinct (mergeEntries li bi)"
      by (rule mergeEntries_distinct)
    have s1: "set (mergeEntries ls bs) = set ls \<union> set bs"
      by (rule mergeEntries_set)
    have s2: "set (mergeEntries li bi) = set li \<union> set bi"
      by (rule mergeEntries_set)
    have "listField fromCluster ''secrets'' = Inr ls \<and> listField ob ''secrets'' = Inr bs \<and>
         listField fromCluster ''imagePullSecrets'' = Inr li \<and>
         listField ob ''imagePullSecrets'' = Inr bi \<and>
         listField desired ''secrets'' = Inr (mergeEntries ls bs) \<and>
         listField desired ''imagePullSecrets'' = Inr (mergeEntries li bi) \<and>
         set (mergeEntries ls bs) = set ls \<union> set bs \<and>
         set (mergeEntries li bi) = set li \<union> set bi \<and>
         distinct (mergeEntries ls bs) \<and> distinct (mergeEntries li bi) \<and>
         (\<forall>k. fmlookup (createMergePatch fromCluster desired) k =
                (if k = ''secrets'' \<and> mergeEntries ls bs \<noteq> [] \<and>
                    fmlookup fromCluster k \<noteq> Some (JArr (mergeEntries ls bs))
                 then Some (JArr (mergeEntries ls bs))
                 else if k = ''imagePullSecrets'' \<and> mergeEntries li bi \<noteq> [] \<and>
                    fmlookup fromCluster k \<noteq> Some (JArr (mergeEntries li bi))
                 then Some (JArr (mergeEntries li bi))
                 else None))"
      using l(1) l(2) l(3) l(4) l(5) l(6) s1 s2 e1 e2 p by (intro conjI)
    then show "\<exists>ls bs li bi.
         listField fromCluster ''secrets'' = Inr ls \<and> listField ob ''secrets'' = Inr bs \<and>
         listField fromCluster ''imagePullSecrets'' = Inr li \<and>
         listField ob ''imagePullSecrets'' = Inr bi \<and>
         listField desired ''secrets'' = Inr (mergeEntries ls bs) \<and>
         listField desired ''imagePullSecrets'' = Inr (mergeEntries li bi) \<and>
         set (mergeEntries ls bs) = set ls \<union> set bs \<and>
         set (mergeEntries li bi) = set li \<union> set bi \<and>
         distinct (mergeEntries ls bs) \<and> distinct (mergeEntries li bi) \<and>
         (\<forall>k. fmlookup (createMergePatch fromCluster desired) k =
                (if k = ''secrets'' \<and> mergeEntries ls bs \<noteq> [] \<and>
                    fmlookup fromCluster k \<noteq> Some (JArr (mergeEntries ls bs))
                 then Some (JArr (mergeEntries ls bs))
                 else if k = ''imagePullSecrets'' \<and> mergeEntries li bi \<noteq> [] \<and>
                    fmlookup fromCluster k \<noteq> Some (JArr (mergeEntries li bi))
                 then Some (JArr (mergeEntries li bi))
                 else None))"
      by (intro exI)
    {
      assume "desired \<noteq> fromCluster"
      then have ne: "fromCluster \<noteq> desired" by blast
      obtain pe c2 where pt: "dynPatch (api ctx) key c1 name (createMergePatch fromCluster desired) = (pe, c2)"
        by (cases "dynPatch (api ctx) key c1 name (createMergePatch fromCluster desired)") blast
      from h a ne pt
      have r: "fst (createStage ctx resource ns groupResource fileName key name ob st) = Continue \<and>
         calls (snd (createStage ctx resource ns groupResource fileName key name ob st)) =
           calls st1 @ [CallPatch key name (createMergePatch fromCluster desired)] \<and>
         errs (snd (createStage ctx resource ns groupResource fileName key name ob st)) = errs st"
        by (cases pe) (simp_all add: createStage_def conflictStage_def generatePatch_def Let_def addWarning_def)
      from r show "fst (createStage ctx resource ns groupResource fileName key name ob st) = Continue"
        by simp
      from r show "calls (snd (createStage ctx resource ns groupResource fileName key name ob st)) =
           calls st1 @ [CallPatch key name (createMergePatch fromCluster desired)]"
        by simp
      from r show "errs (snd (createStage ctx resource ns groupResource fileName key name ob st)) = errs st"
        by simp
    }
    {
      assume "desired = fromCluster"
      with h a show "createStage ctx resource ns groupResource fileName key name ob st = (Continue, st1)"
        by (simp add: createStage_def conflictStage_def generatePatch_def Let_def)
    }
  }
qed

theorem conflict_resolution_witness:
  "saCompared [secretRef ''token-1'', secretRef ''token-3''] \<noteq> saPrepared [secretRef ''token-1'', secretRef ''token-2''] \<and>
   fst (createStage (exCtx [] []) ''serviceaccounts'' ''ns-2'' ServiceAccounts ''default.json'' saKey ''default''
          (saPrepared [secretRef ''token-1'', secretRef ''token-2''])
          (saState [secretRef ''token-1'', secretRef ''token-3''])) = Continue \<and>
   calls (snd (createStage (exCtx [] []) ''serviceaccounts'' ''ns-2'' ServiceAccounts ''default.json'' saKey ''default''
          (saPrepared [secretRef ''token-1'', secretRef ''token-2''])
          (saState [secretRef ''token-1'', secretRef ''token-3'']))) =
     [CallCreate saKey (saPrepared [secretRef ''token-1'', secretRef ''token-2'']),
      CallGet saKey ''default'',
      CallPatch saKey ''default''
        (fmap_of_list [(''secrets'', JArr [secretRef ''token-1'', secretRef ''token-3'', secretRef ''token-2''])])] \<and>
   errs (snd (createStage (exCtx [] []) ''serviceaccounts'' ''ns-2'' ServiceAccounts ''default.json'' saKey ''default''
          (saPrepared [secretRef ''token-1'', secretRef ''token-2''])
          (saState [secretRef ''token-1'', secretRef ''token-3'']))) = emptyResult"
proof -
  let ?ctx = "exCtx [] []"
  let ?ob = "saPrepared [secretRef ''token-1'', secretRef ''token-2'']"
  let ?st = "saState [secretRef ''token-1'', secretRef ''token-3'']"
  let ?c = "saCluster [secretRef ''token-1'', secretRef ''token-3'']"
  let ?live = "saLive [secretRef ''token-1'', secretRef ''token-3'']"
  let ?fc = "saCompared [secretRef ''token-1'', secretRef ''token-3'']"
  let ?desired = "projr (mergeServiceAccounts ?fc ?ob)"
  let ?st1 = "?st\<lparr>cluster := ?c, calls := calls ?st @ [CallCreate saKey ?ob, CallGet saKey ''default'']\<rparr>"
  have h1: "dynCreate (api ?ctx) saKey (cluster ?st) ?ob =
      (AlreadyExists (''serviceaccounts '' @ quoted ''default'' @ '' already exists''), ?c)"
    by code_simp
  have h2: "dynGet (api ?ctx) saKey ?c ''default'' = Inr ?live"
    by code_simp
  have h3: "resetMetadataAndStatus ?live = Inr (projr (resetMetadataAndStatus ?live))"
    by code_simp
  have h4: "?fc = addRestoreLabels (projr (resetMetadataAndStatus ?live))
       (lookupStr (GetLabels ?ob) RestoreNameLabel) (lookupStr (GetLabels ?ob) BackupNameLabel)"
    by code_simp
  have h5: "?fc \<noteq> ?ob"
    by code_simp
  have h6: "mergeServiceAccounts ?fc ?ob = Inr ?desired"
    by code_simp
  have h7: "?desired \<noteq> ?fc"
    by code_simp
  have h8: "createMergePatch ?fc ?desired =
      fmap_of_list [(''secrets'', JArr [secretRef ''token-1'', secretRef ''token-3'', secretRef ''token-2''])]"
    by code_simp
  have h9: "calls ?st = [] \<and> errs ?st = emptyResult"
    by code_simp
  from conflict_resolution[where ctx = ?ctx and key = saKey and st = ?st and ob = ?ob and ?c1.0 = ?c
      and name = "''default''" and live = ?live and stripped = "projr (resetMetadataAndStatus ?live)"
      and fromCluster = ?fc and desired = ?desired and groupResource = ServiceAccounts
      and ns = "''ns-2''" and resource = "''serviceaccounts''" and fileName = "''default.json''"
      and ?st1.0 = ?st1
      and restoreErr = "''serviceaccounts '' @ quoted ''default'' @ '' already exists''"]
    h1 h2 h3 h4 h5 h6 h7
  have r: "fst (createStage ?ctx ''serviceaccounts'' ''ns-2'' ServiceAccounts ''default.json'' saKey ''default'' ?ob ?st) = Continue \<and>
     calls (snd (createStage ?ctx ''serviceaccounts'' ''ns-2'' ServiceAccounts ''default.json'' saKey ''default'' ?ob ?st)) =
       calls ?st1 @ [CallPatch saKey ''default'' (createMergePatch ?fc ?desired)] \<and>
     errs (snd (createStage ?ctx ''serviceaccounts'' ''ns-2'' ServiceAccounts ''default.json'' saKey ''default'' ?ob ?st)) = errs ?st"
    by blast
  from r h5 h8 h9 show ?thesis by simp
qed

end
